theory Spec2Isabelle
  imports Complex_Main "HOL-Library.AList" "HOL-Library.Char_ord" "HOL-Library.List_Lexorder"
begin

section \<open>Numbers\<close>

text \<open>
  The optimizer computes with JavaScript numbers. The model keeps their special values
  (\<open>NaN\<close>, the two infinities) and computes the finite ones exactly, as rationals:
  the rounding of IEEE doubles, overflow and the sign of zero are not modelled
  (\<open>-0\<close> is \<open>0\<close>). A missing property reads as \<open>undefined\<close>, which every
  arithmetic operator and every comparison turns into \<open>NaN\<close>.
\<close>

datatype jsnum = Num rat | PInf | NInf | NaN

fun jsneg :: "jsnum \<Rightarrow> jsnum" where
  "jsneg (Num a) = Num (- a)"
| "jsneg PInf = NInf"
| "jsneg NInf = PInf"
| "jsneg NaN = NaN"

fun jsadd :: "jsnum \<Rightarrow> jsnum \<Rightarrow> jsnum" where
  "jsadd (Num a) (Num b) = Num (a + b)"
| "jsadd NaN _ = NaN"
| "jsadd _ NaN = NaN"
| "jsadd PInf NInf = NaN"
| "jsadd NInf PInf = NaN"
| "jsadd PInf _ = PInf"
| "jsadd _ PInf = PInf"
| "jsadd NInf _ = NInf"
| "jsadd _ NInf = NInf"

definition jssub :: "jsnum \<Rightarrow> jsnum \<Rightarrow> jsnum" where
  "jssub a b = jsadd a (jsneg b)"

text \<open>The sign of a product or quotient with an infinite operand.\<close>

definition signed_inf :: "bool \<Rightarrow> jsnum" where
  "signed_inf positive = (if positive then PInf else NInf)"

fun jsmul :: "jsnum \<Rightarrow> jsnum \<Rightarrow> jsnum" where
  "jsmul (Num a) (Num b) = Num (a * b)"
| "jsmul NaN _ = NaN"
| "jsmul _ NaN = NaN"
| "jsmul (Num a) PInf = (if a = 0 then NaN else signed_inf (0 < a))"
| "jsmul (Num a) NInf = (if a = 0 then NaN else signed_inf (a < 0))"
| "jsmul PInf (Num b) = (if b = 0 then NaN else signed_inf (0 < b))"
| "jsmul NInf (Num b) = (if b = 0 then NaN else signed_inf (b < 0))"
| "jsmul PInf PInf = PInf"
| "jsmul NInf NInf = PInf"
| "jsmul PInf NInf = NInf"
| "jsmul NInf PInf = NInf"

fun jsdiv :: "jsnum \<Rightarrow> jsnum \<Rightarrow> jsnum" where
  "jsdiv (Num a) (Num b) =
     (if b = 0 then (if a = 0 then NaN else signed_inf (0 < a)) else Num (a / b))"
| "jsdiv NaN _ = NaN"
| "jsdiv _ NaN = NaN"
| "jsdiv (Num a) _ = Num 0"
| "jsdiv PInf (Num b) = signed_inf (0 \<le> b)"
| "jsdiv NInf (Num b) = signed_inf (b < 0)"
| "jsdiv _ _ = NaN"

fun jslt :: "jsnum \<Rightarrow> jsnum \<Rightarrow> bool" where
  "jslt (Num a) (Num b) = (a < b)"
| "jslt NaN _ = False"
| "jslt _ NaN = False"
| "jslt NInf NInf = False"
| "jslt NInf _ = True"
| "jslt _ NInf = False"
| "jslt PInf _ = False"
| "jslt _ PInf = True"

definition jsgt :: "jsnum \<Rightarrow> jsnum \<Rightarrow> bool" where
  "jsgt a b = jslt b a"

text \<open>Truthiness, as \<open>!x\<close>, \<open>x && y\<close> and \<open>x || y\<close> test it: \<open>0\<close> and \<open>NaN\<close> are falsy.\<close>

fun truthy :: "jsnum \<Rightarrow> bool" where
  "truthy (Num a) = (a \<noteq> 0)"
| "truthy NaN = False"
| "truthy _ = True"

definition orElse :: "jsnum \<Rightarrow> jsnum \<Rightarrow> jsnum" where
  "orElse v d = (if truthy v then v else d)"

text \<open>
  \<open>a === b\<close> on two property reads, either of which may be \<open>undefined\<close> (\<open>None\<close>):
  \<open>undefined\<close> equals itself only, \<open>NaN\<close> equals nothing.
\<close>

fun strictEq :: "jsnum option \<Rightarrow> jsnum option \<Rightarrow> bool" where
  "strictEq None None = True"
| "strictEq (Some a) (Some b) = (a \<noteq> NaN \<and> a = b)"
| "strictEq _ _ = False"

text \<open>\<open>ToNumber\<close> of a property read.\<close>

definition toNumber :: "jsnum option \<Rightarrow> jsnum" where
  "toNumber v = (case v of None \<Rightarrow> NaN | Some x \<Rightarrow> x)"

text \<open>
  The remainder \<open>a % b\<close> of two finite numbers, \<open>b\<close> not zero: the quotient is truncated
  towards zero, so the result has the sign of \<open>a\<close>.
\<close>

definition trunc :: "rat \<Rightarrow> int" where
  "trunc r = (if r < 0 then \<lceil>r\<rceil> else \<lfloor>r\<rfloor>)"

definition jsrem :: "rat \<Rightarrow> rat \<Rightarrow> rat" where
  "jsrem a b = a - b * of_int (trunc (a / b))"

text \<open>\<open>Math.round\<close> rounds a tie towards plus infinity.\<close>

definition mathRound :: "rat \<Rightarrow> int" where
  "mathRound r = \<lfloor>r + 1 / 2\<rfloor>"

fun roundEven :: "jsnum \<Rightarrow> jsnum" where
  "roundEven (Num r) =
     (if jsrem r 1 = 1 / 2
      then (let fl = \<lfloor>r\<rfloor> in
            if jsrem (of_int fl) 2 = 0 then Num (of_int fl) else Num (of_int fl + 1))
      else Num (of_int (mathRound r)))"
| "roundEven x = x"

fun clamp :: "jsnum \<Rightarrow> jsnum \<Rightarrow> jsnum \<Rightarrow> jsnum" where
  "clamp input lo hi = (if jslt input lo then lo else if jsgt input hi then hi else input)"

section \<open>Attribute maps\<close>

text \<open>
  \<open>Record<string, number>\<close>: the keys in insertion order. A write to a key the object
  has keeps its place, a write to a new key appends it.
\<close>

type_synonym attrs = "(string \<times> jsnum) list"

definition getA :: "attrs \<Rightarrow> string \<Rightarrow> jsnum" where
  "getA m k = toNumber (map_of m k)"

definition setA :: "attrs \<Rightarrow> string \<Rightarrow> jsnum \<Rightarrow> attrs" where
  "setA m k v = AList.update k v m"

definition addTo :: "attrs \<Rightarrow> string \<Rightarrow> jsnum \<Rightarrow> attrs" where
  \<comment> \<open>\<open>m[k] += v\<close>\<close>
  "addTo m k v = setA m k (jsadd (getA m k) v)"

section \<open>Game tables, settings, characters\<close>

text \<open>
  The tables of \<open>gw2-data\<close> and \<open>modifierdata/metadata\<close> are not part of the sources at
  hand; the optimizer takes them as given, and so does the model. \<open>conditionData\<close> is
  keyed by the condition names and read as \<open>(factor, baseDamage)\<close>.
\<close>

record tables =
  allAttributePointKeys :: "string list"
  conditionData :: "string \<Rightarrow> jsnum \<times> jsnum"
  INFUSION_BONUS :: int
  INDICATORS :: "string list"
  CONDITION :: "string list"

datatype rankby = Damage | Survivability | Healing

fun rankbyName :: "rankby \<Rightarrow> string" where
  "rankbyName Damage = ''Damage''"
| "rankbyName Survivability = ''Survivability''"
| "rankbyName Healing = ''Healing''"

record modifiers =
  convert :: "(string \<times> (string \<times> jsnum) list) list"
  buff :: "(string \<times> jsnum) list"
  convertAfterBuffs :: "(string \<times> (string \<times> jsnum) list) list"
  damageMultiplier :: attrs
  bountiful_maintenance_oil :: bool

text \<open>
  \<open>OptimizerCoreSettings\<close>, the fields the core reads. The counts (\<open>maxResults\<close>, the
  infusion limits) are integers; a limit that is \<open>null\<close> is \<open>None\<close>. \<open>slots\<close> is read for
  its length only. The base attributes of the settings are \<open>baseAttributes_s\<close>, those of a
  character \<open>baseAttributes\<close>.
\<close>

record settings =
  rankby :: rankby
  minBoonDuration :: "jsnum option"
  minHealingPower :: "jsnum option"
  minToughness :: "jsnum option"
  maxToughness :: "jsnum option"
  minHealth :: "jsnum option"
  minCritChance :: "jsnum option"
  maxResults :: int
  primaryInfusion :: string
  secondaryInfusion :: string
  primaryMaxInfusions :: int
  secondaryMaxInfusions :: int
  maxInfusions :: int
  distribution :: attrs
  attackRate :: jsnum
  movementUptime :: jsnum
  infusionMode :: string
  affixes :: "string list"
  forcedRing :: bool
  forcedAcc :: bool
  forcedWep :: bool
  forcedArmor :: bool
  slots :: "string list"
  runsAfterThisSlot :: "jsnum list"
  affixesArray :: "string list list"
  affixStatsArray :: "attrs list list"
  baseAttributes_s :: attrs
  modifiers :: modifiers
  disableCondiResultCache :: bool
  relevantConditions :: "string list"

text \<open>
  A gear is the array of the affixes chosen so far. An entry is \<open>undefined\<close> (\<open>None\<close>) when
  it was read from an empty \<open>affixesArray[k]\<close>.
\<close>

type_synonym gear = "string option list"

text \<open>
  \<open>Character\<close>. \<open>attributes\<close> is \<open>null\<close> until \<open>calcStats\<close> fills it; \<open>infusions\<close> and \<open>id\<close>
  are optional. \<open>id_c\<close> is the \<open>id\<close>, kept as the counter of \<open>`${uniqueIDCounter++} (${randomId})`\<close>. The
  reference to the minimal settings and the display data \<open>results\<close> are left out: the
  core writes them and never reads them back.
\<close>

record character =
  gear :: gear
  gearStats :: attrs
  attributes :: "attrs option"
  valid :: bool
  baseAttributes :: attrs
  infusions :: "(string \<times> int) list option"
  id_c :: "nat option"

datatype error = InvalidInfusionMode string | InvalidInternalState | TypeError

section \<open>The attribute pipeline\<close>

definition convertStep ::
  "(jsnum \<Rightarrow> jsnum) \<Rightarrow> attrs \<Rightarrow> string \<Rightarrow> attrs \<Rightarrow> string \<times> jsnum \<Rightarrow> attrs" where
  "convertStep maybeRound baseAttrs attribute attrs sp =
     addTo attrs attribute (maybeRound (jsmul (getA baseAttrs (fst sp)) (snd sp)))"

definition critChanceLess :: "attrs \<Rightarrow> rat \<Rightarrow> jsnum" where
  \<comment> \<open>\<open>clamp(attributes['Critical Chance'] - x, 0, 1)\<close>\<close>
  "critChanceLess attrs x =
     clamp (jssub (getA attrs ''Critical Chance'') (Num x)) (Num 0) (Num 1)"

definition convertAfterStep ::
  "(jsnum \<Rightarrow> jsnum) \<Rightarrow> string \<Rightarrow> attrs \<Rightarrow> string \<times> jsnum \<Rightarrow> attrs" where
  "convertAfterStep maybeRound attribute attrs sp =
     (let source = fst sp; percent = snd sp in
      if source = ''Critical Chance'' then
        addTo attrs attribute
          (maybeRound (jsmul (clamp (getA attrs ''Critical Chance'') (Num 0) (Num 1)) percent))
      else if source = ''Critical Chance -7'' then
        addTo attrs attribute (maybeRound (jsmul (critChanceLess attrs (7 / 100)) percent))
      else if source = ''Critical Chance -20'' then
        addTo attrs attribute (maybeRound (jsmul (critChanceLess attrs (2 / 10)) percent))
      else if source = ''Critical Chance -27'' then
        addTo attrs attribute (maybeRound (jsmul (critChanceLess attrs (27 / 100)) percent))
      else if source = ''Critical Chance -30'' then
        addTo attrs attribute (maybeRound (jsmul (critChanceLess attrs (3 / 10)) percent))
      else if source = ''Critical Chance -37'' then
        (let attrs1 =
           addTo attrs attribute (maybeRound (jsmul (critChanceLess attrs (37 / 100)) percent))
         in addTo attrs1 attribute (maybeRound (jsmul (getA attrs1 source) percent)))
      else attrs)"

definition maybeRoundFor :: "tables \<Rightarrow> (jsnum \<Rightarrow> jsnum) \<Rightarrow> string \<Rightarrow> jsnum \<Rightarrow> jsnum" where
  \<comment> \<open>\<open>allAttributePointKeys.includes(attribute) ? round : (val) => val\<close>\<close>
  "maybeRoundFor T rnd attribute =
     (if attribute \<in> set (allAttributePointKeys T) then rnd else (\<lambda>val. val))"

definition calcStats :: "tables \<Rightarrow> settings \<Rightarrow> attrs \<Rightarrow> bool \<Rightarrow> attrs" where
  \<comment> \<open>from the character's \<open>baseAttributes\<close> to its new \<open>attributes\<close>\<close>
  "calcStats T S baseAttrs noRounding =
     (let rnd = (if noRounding then (\<lambda>val. val) else roundEven);
          a0 = baseAttrs;
          a1 = foldl (\<lambda>a (attribute, conversion).
                 foldl (convertStep (maybeRoundFor T rnd attribute) baseAttrs attribute)
                   a conversion)
               a0 (convert (modifiers S));
          a2 = foldl (\<lambda>a (attribute, bonus).
                 setA a attribute (jsadd (orElse (getA a attribute) (Num 0)) bonus))
               a1 (buff (modifiers S));
          a3 = addTo a2 ''Critical Chance''
                 (jsdiv (jsdiv (jssub (getA a2 ''Precision'') (Num 1000)) (Num 21)) (Num 100));
          a4 = addTo a3 ''Critical Damage''
                 (jsdiv (jsdiv (getA a3 ''Ferocity'') (Num 15)) (Num 100));
          a5 = addTo a4 ''Boon Duration''
                 (jsdiv (jsdiv (getA a4 ''Concentration'') (Num 15)) (Num 100));
          a6 = setA a5 ''Health''
                 (rnd (jsmul
                    (jsadd (getA a5 ''Health'') (jsmul (getA a5 ''Vitality'') (Num 10)))
                    (jsadd (Num 1) (orElse (getA a5 ''Maximum Health'') (Num 0)))))
      in foldl (\<lambda>a (attribute, conversion).
           foldl (convertAfterStep (maybeRoundFor T rnd attribute) attribute)
             a conversion)
         a6 (convertAfterBuffs (modifiers S)))"

definition limitBelow :: "jsnum option \<Rightarrow> rat \<Rightarrow> jsnum \<Rightarrow> bool" where
  \<comment> \<open>\<open>limit !== null && value < limit / scale\<close>\<close>
  "limitBelow limit scale v =
     (case limit of None \<Rightarrow> False | Some l \<Rightarrow> jslt v (jsdiv l (Num scale)))"

definition checkInvalid :: "settings \<Rightarrow> attrs \<Rightarrow> bool" where
  "checkInvalid S attrs =
     (limitBelow (minBoonDuration S) 100 (getA attrs ''Boon Duration'') \<or>
      (case minHealingPower S of None \<Rightarrow> False
       | Some l \<Rightarrow> jslt (getA attrs ''Healing Power'') l) \<or>
      (case minToughness S of None \<Rightarrow> False | Some l \<Rightarrow> jslt (getA attrs ''Toughness'') l) \<or>
      (case maxToughness S of None \<Rightarrow> False | Some l \<Rightarrow> jsgt (getA attrs ''Toughness'') l) \<or>
      (case minHealth S of None \<Rightarrow> False | Some l \<Rightarrow> jslt (getA attrs ''Health'') l) \<or>
      limitBelow (minCritChance S) 100 (getA attrs ''Critical Chance''))"

section \<open>Scoring\<close>

text \<open>
  The scoring methods read and write \<open>character.attributes\<close> only, which their callers
  have just built with \<open>calcStats\<close>: they take the attribute map and return it updated,
  beside the score.
\<close>

definition calcPower :: "attrs \<Rightarrow> attrs \<Rightarrow> jsnum \<times> attrs" where
  "calcPower dm attrs =
     (let critDmg = jsmul (getA attrs ''Critical Damage'') (getA dm ''Critical Damage'');
          critChance = clamp (getA attrs ''Critical Chance'') (Num 0) (Num 1);
          a1 = setA attrs ''Effective Power''
                 (jsmul
                    (jsmul (getA attrs ''Power'')
                       (jsadd (Num 1) (jsmul critChance (jssub critDmg (Num 1)))))
                    (getA dm ''Strike Damage''));
          powerDamage =
            jsmul (jsdiv (orElse (getA a1 ''Power Coefficient'') (Num 0)) (Num 2597))
              (getA a1 ''Effective Power'');
          a2 = setA a1 ''Power DPS'' powerDamage;
          siphonDamage =
            jsmul (orElse (getA a2 ''Siphon Base Coefficient'') (Num 0))
              (getA dm ''Siphon Damage'');
          a3 = setA a2 ''Siphon DPS'' powerDamage
      in (jsadd powerDamage siphonDamage, a3))"

definition conditionDamageTick :: "tables \<Rightarrow> string \<Rightarrow> jsnum \<Rightarrow> jsnum \<Rightarrow> jsnum" where
  "conditionDamageTick T condition cdmg mult =
     jsmul (jsadd (jsmul (fst (conditionData T condition)) cdmg)
              (snd (conditionData T condition)))
       mult"

definition conditionDamage ::
  "tables \<Rightarrow> settings \<Rightarrow> string \<Rightarrow> jsnum \<Rightarrow> jsnum \<Rightarrow> jsnum" where
  \<comment> \<open>the \<open>switch\<close> of \<open>calcCondi\<close>: what is stored as \<open>`${condition} Damage`\<close>\<close>
  "conditionDamage T S condition cdmg mult =
     (if condition = ''Torment'' then
        jsadd
          (jsmul (conditionDamageTick T ''Torment'' cdmg mult)
             (jssub (Num 1) (movementUptime S)))
          (jsmul (conditionDamageTick T ''TormentMoving'' cdmg mult) (movementUptime S))
      else if condition = ''Confusion'' then
        jsadd (conditionDamageTick T ''Confusion'' cdmg mult)
          (jsmul (conditionDamageTick T ''ConfusionActive'' cdmg mult) (attackRate S))
      else conditionDamageTick T condition cdmg mult)"

definition condiDuration :: "attrs \<Rightarrow> string \<Rightarrow> jsnum" where
  "condiDuration attrs condition =
     jsadd (Num 1)
       (clamp
          (jsadd (orElse (getA attrs (condition @ '' Duration'')) (Num 0))
             (getA attrs ''Condition Duration''))
          (Num 0) (Num 1))"

definition condiStacks :: "attrs \<Rightarrow> string \<Rightarrow> jsnum" where
  "condiStacks attrs condition =
     jsmul (orElse (getA attrs (condition @ '' Coefficient'')) (Num 0))
       (condiDuration attrs condition)"

definition condiStep ::
  "tables \<Rightarrow> settings \<Rightarrow> attrs \<Rightarrow> jsnum \<times> attrs \<Rightarrow> string \<Rightarrow> jsnum \<times> attrs" where
  \<comment> \<open>one round of the loop of \<open>calcCondi\<close>\<close>
  "condiStep T S dm sa condition =
     (let condiDamageScore = fst sa; attrs = snd sa;
          cdmg = getA attrs ''Condition Damage'';
          mult = jsmul (getA dm ''Condition Damage'') (getA dm (condition @ '' Damage''));
          a1 = setA attrs (condition @ '' Damage'') (conditionDamage T S condition cdmg mult);
          stacks = condiStacks a1 condition;
          a2 = setA a1 (condition @ '' Stacks'') stacks;
          DPS = jsmul stacks (orElse (getA a2 (condition @ '' Damage'')) (Num 1));
          a3 = setA a2 (condition @ '' DPS'') DPS
      in (jsadd condiDamageScore DPS, a3))"

definition calcCondi ::
  "tables \<Rightarrow> settings \<Rightarrow> attrs \<Rightarrow> attrs \<Rightarrow> string list \<Rightarrow> jsnum \<times> attrs" where
  "calcCondi T S dm attrs conditions =
     (let a0 = addTo attrs ''Condition Duration''
                 (jsdiv (jsdiv (getA attrs ''Expertise'') (Num 15)) (Num 100))
      in foldl (condiStep T S dm) (Num 0, a0) conditions)"

definition calcSurvivability :: "attrs \<Rightarrow> attrs \<Rightarrow> attrs" where
  "calcSurvivability dm attrs =
     (let a1 = addTo attrs ''Armor'' (getA attrs ''Toughness'');
          a2 = setA a1 ''Effective Health''
                 (jsmul (jsmul (getA a1 ''Health'') (getA a1 ''Armor''))
                    (jsdiv (Num 1) (getA dm ''Damage Taken'')))
      in setA a2 ''Survivability'' (jsdiv (getA a2 ''Effective Health'') (Num 1967)))"

definition calcHealing :: "settings \<Rightarrow> attrs \<Rightarrow> attrs" where
  "calcHealing S attrs =
     (let a1 = setA attrs ''Effective Healing''
                 (jsmul (jsadd (jsmul (getA attrs ''Healing Power'') (Num (3 / 10))) (Num 390))
                    (jsadd (Num 1) (orElse (getA attrs ''Outgoing Healing'') (Num 0))));
          a2 = (if bountiful_maintenance_oil (modifiers S) then
                  (let bonus =
                     jsadd
                       (jsdiv (jsmul (orElse (getA a1 ''Healing Power'') (Num 0)) (Num (6 / 10)))
                          (Num 10000))
                       (jsdiv (jsmul (orElse (getA a1 ''Concentration'') (Num 0)) (Num (8 / 10)))
                          (Num 10000))
                   in if truthy bonus
                      then setA a1 ''Effective Healing''
                             (jsmul (getA a1 ''Effective Healing'') (jsadd (Num 1) bonus))
                      else a1)
                else a1)
      in setA a2 ''Healing'' (getA a2 ''Effective Healing''))"

definition flatDPS :: "attrs \<Rightarrow> jsnum" where
  "flatDPS attrs = orElse (getA attrs ''Flat DPS'') (Num 0)"

definition updateAttributes :: "tables \<Rightarrow> settings \<Rightarrow> character \<Rightarrow> bool \<Rightarrow> character" where
  "updateAttributes T S c noRounding =
     (let dm = damageMultiplier (modifiers S);
          a0 = calcStats T S (baseAttributes c) noRounding;
          (powerDamageScore, a1) = calcPower dm a0;
          (condiDamageScore, a2) = calcCondi T S dm a1 (CONDITION T);
          a3 = setA a2 ''Damage''
                 (jsadd (jsadd powerDamageScore condiDamageScore) (flatDPS a2));
          a4 = calcSurvivability dm a3;
          a5 = calcHealing S a4
      in c\<lparr>valid := True, attributes := Some a5\<rparr>)"

section \<open>The optimizer core\<close>

text \<open>
  The constructor picks the infusion function by \<open>settings.infusionMode\<close> and throws on a
  mode it does not know.
\<close>

datatype infusionFn =
  ApplyInfusionsNone | ApplyInfusionsPrimary | ApplyInfusionsFew | ApplyInfusionsSecondary
  | ApplyInfusionsSecondaryNoDuplicates

definition selectInfusionsFunction :: "string \<Rightarrow> error + infusionFn" where
  "selectInfusionsFunction mode =
     (if mode = ''None'' then Inr ApplyInfusionsNone
      else if mode = ''Primary'' then Inr ApplyInfusionsPrimary
      else if mode = ''Few'' then Inr ApplyInfusionsFew
      else if mode = ''Secondary'' then Inr ApplyInfusionsSecondary
      else if mode = ''SecondaryNoDuplicates'' then Inr ApplyInfusionsSecondaryNoDuplicates
      else Inl (InvalidInfusionMode mode))"

text \<open>
  The fields of an \<open>OptimizerCore\<close> that change during a search. \<open>resultList\<close> is the
  field \<open>list\<close>. \<open>condiResultCache\<close> is a \<open>Map\<close> keyed by numbers. \<open>worstScore\<close> is only
  ever tested for truth and compared, where \<open>undefined\<close> and \<open>NaN\<close> behave alike: it is
  kept as a number. \<open>randomId\<close>, fixed at construction, is left out.
\<close>

record core =
  applyInfusionsFunction :: infusionFn
  condiResultCache :: "(jsnum \<times> jsnum) list"
  worstScore :: jsnum
  resultList :: "character list"
  isChanged :: bool
  uniqueIDCounter :: nat

definition optimizerCore :: "settings \<Rightarrow> error + core" where
  "optimizerCore S =
     (case selectInfusionsFunction (infusionMode S) of
        Inl e \<Rightarrow> Inl e
      | Inr f \<Rightarrow>
          Inr \<lparr>applyInfusionsFunction = f, condiResultCache = [], worstScore = Num 0,
               resultList = [], isChanged = True, uniqueIDCounter = 0\<rparr>)"

subsection \<open>The fast path and the condition cache\<close>

definition condiCacheId :: "attrs \<Rightarrow> jsnum" where
  "condiCacheId attrs =
     jsadd (getA attrs ''Expertise'') (jsmul (getA attrs ''Condition Damage'') (Num 10000))"

definition cachedCondi ::
  "tables \<Rightarrow> settings \<Rightarrow> (jsnum \<times> jsnum) list \<Rightarrow> attrs
     \<Rightarrow> jsnum \<times> attrs \<times> (jsnum \<times> jsnum) list" where
  \<comment> \<open>the condition score of \<open>updateAttributesFast\<close>, with the attributes and the cache after it\<close>
  "cachedCondi T S cache attrs =
     (let dm = damageMultiplier (modifiers S) in
      if disableCondiResultCache S then
        (let (score, a) = calcCondi T S dm attrs (relevantConditions S) in (score, a, cache))
      else if length (relevantConditions S) > 0 then
        (let CONDI_CACHE_ID = condiCacheId attrs;
             cached = toNumber (map_of cache CONDI_CACHE_ID);
             (score, a) = (if truthy cached then (cached, attrs)
                           else calcCondi T S dm attrs (relevantConditions S))
         in (score, a, AList.update CONDI_CACHE_ID score cache))
      else (Num 0, attrs, cache))"

definition updateAttributesFast ::
  "tables \<Rightarrow> settings \<Rightarrow> core \<Rightarrow> character \<Rightarrow> bool \<Rightarrow> bool \<times> character \<times> core" where
  "updateAttributesFast T S co c skipValidation =
     (let dm = damageMultiplier (modifiers S);
          a0 = calcStats T S (baseAttributes c) False;
          c1 = c\<lparr>valid := True, attributes := Some a0\<rparr>
      in if \<not> skipValidation \<and> checkInvalid S a0 then (False, c1\<lparr>valid := False\<rparr>, co)
         else
           (case rankby S of
              Damage \<Rightarrow>
                (let (powerDamageScore, a1) = calcPower dm a0;
                     (condiDamageScore, a2, cache) = cachedCondi T S (condiResultCache co) a1;
                     a3 = setA a2 ''Damage''
                            (jsadd (jsadd powerDamageScore condiDamageScore) (flatDPS a2))
                 in (True, c1\<lparr>attributes := Some a3\<rparr>, co\<lparr>condiResultCache := cache\<rparr>))
            | Survivability \<Rightarrow> (True, c1\<lparr>attributes := Some (calcSurvivability dm a0)\<rparr>, co)
            | Healing \<Rightarrow> (True, c1\<lparr>attributes := Some (calcHealing S a0)\<rparr>, co)))"

subsection \<open>Results of an accepted character\<close>

text \<open>
  \<open>calcResults\<close> fills \<open>character.results\<close> from the attributes and from clones it
  evaluates; the character's other fields stay as they are. It throws a \<open>TypeError\<close> where
  it calls \<open>toFixed\<close> on a missing attribute: an indicator, or the \<open>DPS\<close> of a key of the
  distribution.
\<close>

definition calcResults :: "tables \<Rightarrow> settings \<Rightarrow> character \<Rightarrow> error + character" where
  "calcResults T S c =
     (case attributes c of
        None \<Rightarrow> Inl TypeError
      | Some a \<Rightarrow>
          if list_ex (\<lambda>attribute. map_of a attribute = None) (INDICATORS T) then Inl TypeError
          else if list_ex (\<lambda>key. key \<noteq> ''Power'' \<and> map_of a (key @ '' DPS'') = None)
                    (map fst (distribution S))
          then Inl TypeError
          else Inr c)"

subsection \<open>The ranked list\<close>

definition characterLT :: "attrs \<Rightarrow> attrs \<Rightarrow> rankby \<Rightarrow> jsnum" where
  \<comment> \<open>on the attributes of \<open>a\<close> and \<open>b\<close>; positive if \<open>b\<close> is better than \<open>a\<close>\<close>
  "characterLT a b r =
     (if strictEq (map_of a (rankbyName r)) (map_of b (rankbyName r)) then
        (case r of
           Damage \<Rightarrow> jssub (getA b ''Survivability'') (getA a ''Survivability'')
         | Survivability \<Rightarrow> jssub (getA b ''Damage'') (getA a ''Damage'')
         | Healing \<Rightarrow> jssub (getA b ''Damage'') (getA a ''Damage''))
      else jssub (getA b (rankbyName r)) (getA a (rankbyName r)))"

text \<open>
  The scan of \<open>insertCharacter\<close> for the position, downwards from \<open>position\<close>. Reading the
  attributes of a list member that has none throws.
\<close>

fun findPosition :: "rankby \<Rightarrow> character list \<Rightarrow> attrs \<Rightarrow> nat \<Rightarrow> error + nat" where
  "findPosition r lst a 0 = Inr 0"
| "findPosition r lst a (Suc p) =
     (case attributes (lst ! p) of
        None \<Rightarrow> Inl TypeError
      | Some b \<Rightarrow>
          if jsgt (characterLT b a r) (Num 0) then findPosition r lst a p else Inr (Suc p))"

definition insertCharacter ::
  "tables \<Rightarrow> settings \<Rightarrow> core \<Rightarrow> character \<Rightarrow> error + core \<times> character" where
  \<comment> \<open>returns the core and the character, which the method changes in place\<close>
  "insertCharacter T S co c =
     (if \<not> valid c then Inr (co, c)
      else if truthy (worstScore co) \<and> attributes c = None then Inl TypeError
      else if truthy (worstScore co) \<and>
              jsgt (worstScore co) (getA (the (attributes c)) (rankbyName (rankby S)))
      then Inr (co, c)
      else
        (case calcResults T S (updateAttributes T S c False) of
           Inl e \<Rightarrow> Inl e
         | Inr c1 \<Rightarrow>
             (let c2 = c1\<lparr>id_c := Some (uniqueIDCounter co)\<rparr>;
                  co1 = co\<lparr>uniqueIDCounter := uniqueIDCounter co + 1\<rparr>;
                  lst = resultList co1
              in if length lst = 0 then Inr (co1\<lparr>resultList := [c2], isChanged := True\<rparr>, c2)
                 else
                   (case findPosition (rankby S) lst (the (attributes c2)) (length lst) of
                      Inl e \<Rightarrow> Inl e
                    | Inr position \<Rightarrow>
                        if int position > maxResults S - 1 then Inr (co1, c2)
                        else
                          (let lst1 =
                             (if int position \<le> int (length lst) - 1 then
                                (let spliced = take position lst @ [c2] @ drop position lst
                                 in if int (length spliced) > maxResults S
                                    then take (nat (maxResults S)) spliced else spliced)
                              else lst @ [c2])
                           in if int (length lst1) = maxResults S then
                                (case attributes (last lst1) of
                                   None \<Rightarrow> Inl TypeError
                                 | Some w \<Rightarrow>
                                     Inr (co1\<lparr>resultList := lst1,
                                            worstScore := getA w (rankbyName (rankby S)),
                                            isChanged := True\<rparr>, c2))
                              else Inr (co1\<lparr>resultList := lst1, isChanged := True\<rparr>, c2))))))"

subsection \<open>Infusions\<close>

definition clone :: "character \<Rightarrow> character" where
  \<comment> \<open>the clone as a value; the sharing of its fields is the subject of a later section\<close>
  "clone c =
     \<lparr>gear = gear c, gearStats = gearStats c, attributes = attributes c, valid = valid c,
      baseAttributes = baseAttributes c,
      infusions = Some (case infusions c of None \<Rightarrow> [] | Some i \<Rightarrow> i),
      id_c = None\<rparr>"

definition addBaseStats :: "character \<Rightarrow> string \<Rightarrow> jsnum \<Rightarrow> character" where
  "addBaseStats c stat amount =
     c\<lparr>baseAttributes :=
          setA (baseAttributes c) stat
            (jsadd (orElse (getA (baseAttributes c) stat) (Num 0)) amount)\<rparr>"

definition infusionAmount :: "tables \<Rightarrow> int \<Rightarrow> jsnum" where
  \<comment> \<open>\<open>count * INFUSION_BONUS\<close>\<close>
  "infusionAmount T n = Num (of_int (n * INFUSION_BONUS T))"

definition insertOnly :: "tables \<Rightarrow> settings \<Rightarrow> core \<Rightarrow> character \<Rightarrow> error + core" where
  \<comment> \<open>\<open>insertCharacter\<close> where the caller drops the character\<close>
  "insertOnly T S co c =
     (case insertCharacter T S co c of Inl e \<Rightarrow> Inl e | Inr (co1, c1) \<Rightarrow> Inr co1)"

definition applyInfusionsNone :: "tables \<Rightarrow> settings \<Rightarrow> core \<Rightarrow> character \<Rightarrow> error + core" where
  "applyInfusionsNone T S co c =
     (let (ok, c1, co1) = updateAttributesFast T S co c False in insertOnly T S co1 c1)"

definition applyInfusionsPrimary ::
  "tables \<Rightarrow> settings \<Rightarrow> core \<Rightarrow> character \<Rightarrow> error + core" where
  "applyInfusionsPrimary T S co c =
     (let c0 = c\<lparr>infusions := Some [(primaryInfusion S, primaryMaxInfusions S)]\<rparr>;
          c1 = addBaseStats c0 (primaryInfusion S) (infusionAmount T (primaryMaxInfusions S));
          (ok, c2, co1) = updateAttributesFast T S co c1 False
      in insertOnly T S co1 c2)"

definition infusionPair :: "settings \<Rightarrow> int \<Rightarrow> int \<Rightarrow> (string \<times> int) list" where
  \<comment> \<open>\<open>{ [primaryInfusion]: p, [secondaryInfusion]: s }\<close>\<close>
  "infusionPair S p s = AList.update (secondaryInfusion S) s [(primaryInfusion S, p)]"

definition applyInfusionsFew :: "tables \<Rightarrow> settings \<Rightarrow> core \<Rightarrow> character \<Rightarrow> error + core" where
  "applyInfusionsFew T S co c =
     (let c0 = c\<lparr>infusions :=
                  Some (infusionPair S (primaryMaxInfusions S) (secondaryMaxInfusions S))\<rparr>;
          c1 = addBaseStats c0 (primaryInfusion S) (infusionAmount T (primaryMaxInfusions S));
          c2 = addBaseStats c1 (secondaryInfusion S)
                 (infusionAmount T (secondaryMaxInfusions S));
          (ok, c3, co1) = updateAttributesFast T S co c2 False
      in insertOnly T S co1 c3)"

definition testInfusionUsefulness ::
  "tables \<Rightarrow> settings \<Rightarrow> core \<Rightarrow> character \<Rightarrow> bool \<times> core" where
  "testInfusionUsefulness T S co c =
     (let t0 = clone c;
          t1 = addBaseStats t0 (primaryInfusion S) (infusionAmount T (maxInfusions S));
          t2 = addBaseStats t1 (secondaryInfusion S) (infusionAmount T (maxInfusions S));
          (ok, temp, co1) = updateAttributesFast T S co t2 True
      in (jsgt (getA (the (attributes temp)) (rankbyName (rankby S))) (worstScore co1), co1))"

definition infusedClone :: "tables \<Rightarrow> settings \<Rightarrow> character \<Rightarrow> int \<Rightarrow> int \<Rightarrow> character" where
  \<comment> \<open>the clone with both infusions added that the two loops below evaluate\<close>
  "infusedClone T S c primaryCount secondaryCount =
     addBaseStats
       (addBaseStats (clone c) (primaryInfusion S) (infusionAmount T primaryCount))
       (secondaryInfusion S) (infusionAmount T secondaryCount)"

definition rankValue :: "settings \<Rightarrow> character \<Rightarrow> jsnum option" where
  \<comment> \<open>\<open>temp.attributes[settings.rankby]\<close>, read after an update has set the attributes\<close>
  "rankValue S c = map_of (the (attributes c)) (rankbyName (rankby S))"

function secondaryLoop ::
  "tables \<Rightarrow> settings \<Rightarrow> character \<Rightarrow> int \<Rightarrow> int \<Rightarrow> jsnum option \<Rightarrow> core \<Rightarrow> error + core" where
  "secondaryLoop T S c primaryCount secondaryCount previousResult co =
     (if secondaryCount \<le> secondaryMaxInfusions S then
        (case updateAttributesFast T S co (infusedClone T S c primaryCount secondaryCount) False of
           (ok, temp, co1) \<Rightarrow>
             if valid temp \<and> \<not> strictEq (rankValue S temp) previousResult then
               (case insertCharacter T S co1
                       (temp\<lparr>infusions := Some (infusionPair S primaryCount secondaryCount)\<rparr>) of
                  Inl e \<Rightarrow> Inl e
                | Inr (co2, temp2) \<Rightarrow>
                    secondaryLoop T S c (primaryCount - 1) (secondaryCount + 1)
                      (rankValue S temp2) co2)
             else secondaryLoop T S c (primaryCount - 1) (secondaryCount + 1) previousResult co1)
      else Inr co)"
  by pat_completeness auto
termination
  by (relation "measure (\<lambda>(T, S, c, p, s, prev, co). nat (secondaryMaxInfusions S + 1 - s))")
    auto

declare secondaryLoop.simps [simp del]

definition applyInfusionsSecondary ::
  "tables \<Rightarrow> settings \<Rightarrow> core \<Rightarrow> character \<Rightarrow> error + core" where
  "applyInfusionsSecondary T S co c =
     (let (go, co1) = (if \<not> truthy (worstScore co) then (True, co)
                       else testInfusionUsefulness T S co c)
      in if go then
           secondaryLoop T S c (primaryMaxInfusions S)
             (maxInfusions S - primaryMaxInfusions S) None co1
         else Inr co1)"

function noDuplicatesLoop ::
  "tables \<Rightarrow> settings \<Rightarrow> character \<Rightarrow> int \<Rightarrow> int \<Rightarrow> character option \<Rightarrow> core
     \<Rightarrow> character option \<times> core" where
  "noDuplicatesLoop T S c primaryCount secondaryCount best co =
     (if secondaryCount \<le> secondaryMaxInfusions S then
        (case updateAttributesFast T S co (infusedClone T S c primaryCount secondaryCount) False of
           (ok, temp0, co1) \<Rightarrow>
             if valid temp0 then
               (let temp = temp0\<lparr>infusions :=
                                    Some (infusionPair S primaryCount secondaryCount)\<rparr>
                in if (case best of
                         None \<Rightarrow> True
                       | Some b \<Rightarrow>
                           jsgt (characterLT (the (attributes b)) (the (attributes temp))
                                   (rankby S)) (Num 0))
                   then noDuplicatesLoop T S c (primaryCount - 1) (secondaryCount + 1)
                          (Some temp) co1
                   else noDuplicatesLoop T S c (primaryCount - 1) (secondaryCount + 1) best co1)
             else noDuplicatesLoop T S c (primaryCount - 1) (secondaryCount + 1) best co1)
      else (best, co))"
  by pat_completeness auto
termination
  by (relation "measure (\<lambda>(T, S, c, p, s, best, co). nat (secondaryMaxInfusions S + 1 - s))")
    auto

declare noDuplicatesLoop.simps [simp del]

definition applyInfusionsSecondaryNoDuplicates ::
  "tables \<Rightarrow> settings \<Rightarrow> core \<Rightarrow> character \<Rightarrow> error + core" where
  "applyInfusionsSecondaryNoDuplicates T S co c =
     (let (go, co1) = (if \<not> truthy (worstScore co) then (True, co)
                       else testInfusionUsefulness T S co c)
      in if go then
           (case noDuplicatesLoop T S c (primaryMaxInfusions S)
                   (maxInfusions S - primaryMaxInfusions S) None co1 of
              (None, co2) \<Rightarrow> Inr co2
            | (Some best, co2) \<Rightarrow> insertOnly T S co2 best)
         else Inr co1)"

definition applyInfusions :: "tables \<Rightarrow> settings \<Rightarrow> core \<Rightarrow> character \<Rightarrow> error + core" where
  \<comment> \<open>\<open>this.applyInfusionsFunction(character)\<close>\<close>
  "applyInfusions T S co c =
     (case applyInfusionsFunction co of
        ApplyInfusionsNone \<Rightarrow> applyInfusionsNone T S co c
      | ApplyInfusionsPrimary \<Rightarrow> applyInfusionsPrimary T S co c
      | ApplyInfusionsFew \<Rightarrow> applyInfusionsFew T S co c
      | ApplyInfusionsSecondary \<Rightarrow> applyInfusionsSecondary T S co c
      | ApplyInfusionsSecondaryNoDuplicates \<Rightarrow> applyInfusionsSecondaryNoDuplicates T S co c)"

definition testCharacter :: "tables \<Rightarrow> settings \<Rightarrow> core \<Rightarrow> gear \<Rightarrow> attrs \<Rightarrow> error + core" where
  \<comment> \<open>\<open>gear\<close> is an array, so the guard \<open>!gear\<close> never holds\<close>
  "testCharacter T S co g gs =
     applyInfusions T S co
       \<lparr>gear = g, gearStats = gs, attributes = None, valid = True,
        baseAttributes =
          foldl (\<lambda>b stat. addTo b stat (getA gs stat)) (baseAttributes_s S) (map fst gs),
        infusions = None, id_c = None\<rparr>"

section \<open>The search\<close>

text \<open>
  A progress value, yielded or returned by the generator \<open>calculate\<close>. A field the object
  literal does not have is \<open>None\<close>; \<open>newList: null\<close> is \<open>None\<close> too.
\<close>

record progress =
  isChanged_p :: bool
  calculationRuns_p :: "jsnum option"
  percent_p :: "jsnum option"
  newList_p :: "character list option"

text \<open>
  The state of the loop of \<open>calculate\<close>. The two stacks are lists with the top first.
  \<open>yielded\<close> collects the values yielded so far. \<open>leafEvaluations\<close> counts the calls of
  \<open>testCharacter\<close>: the source keeps no such counter, the field is there to state how many
  there are.
\<close>

record search =
  calculationQueue :: "gear list"
  calculationStatsQueue :: "attrs list"
  calculationRuns :: jsnum
  cycles :: nat
  engine :: core
  yielded :: "progress list"
  leafEvaluations :: nat

definition nth_opt :: "'a list \<Rightarrow> nat \<Rightarrow> 'a option" where
  \<comment> \<open>\<open>xs[i]\<close>, \<open>undefined\<close> out of range\<close>
  "nth_opt xs i = (if i < length xs then Some (xs ! i) else None)"

fun affixGT :: "string option \<Rightarrow> string option \<Rightarrow> bool" where
  \<comment> \<open>\<open>a > b\<close> on affix names: the order of strings; false if one is \<open>undefined\<close>\<close>
  "affixGT (Some a) (Some b) = (b < a)"
| "affixGT _ _ = False"

definition symmetrySkip :: "settings \<Rightarrow> gear \<Rightarrow> bool" where
  "symmetrySkip S g =
     (let nextSlot = length g in
      (\<not> forcedRing S \<and> nextSlot = 9 \<and> affixGT (g ! (nextSlot - 2)) (g ! (nextSlot - 1))) \<or>
      (\<not> forcedAcc S \<and> nextSlot = 11 \<and> affixGT (g ! (nextSlot - 2)) (g ! (nextSlot - 1))) \<or>
      (\<not> forcedWep S \<and> nextSlot = 14 \<and> affixGT (g ! (nextSlot - 2)) (g ! (nextSlot - 1))) \<or>
      (\<not> forcedArmor S \<and> nextSlot = 6 \<and> (affixGT (g ! 1) (g ! 3) \<or> affixGT (g ! 3) (g ! 5))))"

definition addGearStats :: "attrs \<Rightarrow> (string \<times> jsnum) list \<Rightarrow> attrs" where
  \<comment> \<open>\<open>for (const [stat, bonus] of ...) gearStats[stat] = (gearStats[stat] || 0) + bonus\<close>\<close>
  "addGearStats gs bonuses =
     foldl (\<lambda>m (stat, bonus). setA m stat (jsadd (orElse (getA m stat) (Num 0)) bonus))
       gs bonuses"

definition affixStats :: "settings \<Rightarrow> nat \<Rightarrow> nat \<Rightarrow> error + (string \<times> jsnum) list" where
  \<comment> \<open>\<open>settings.affixStatsArray[nextSlot][index]\<close>, which the loop iterates: it must be there\<close>
  "affixStats S nextSlot index =
     (case nth_opt (affixStatsArray S) nextSlot of
        None \<Rightarrow> Inl TypeError
      | Some row \<Rightarrow> (case nth_opt row index of None \<Rightarrow> Inl TypeError | Some b \<Rightarrow> Inr b))"

text \<open>The clones pushed for the affixes \<open>1\<close> and up, in the order of the loop.\<close>

fun pushClones ::
  "settings \<Rightarrow> gear \<Rightarrow> attrs \<Rightarrow> nat list \<Rightarrow> gear list \<times> attrs list
     \<Rightarrow> error + gear list \<times> attrs list" where
  "pushClones S g gs [] qs = Inr qs"
| "pushClones S g gs (index # rest) qs =
     (case affixStats S (length g) index of
        Inl e \<Rightarrow> Inl e
      | Inr bonuses \<Rightarrow>
          pushClones S g gs rest
            ((g @ [Some (affixesArray S ! length g ! index)]) # fst qs,
             addGearStats gs bonuses # snd qs))"

definition snapshot :: "search \<Rightarrow> progress" where
  \<comment> \<open>\<open>{ isChanged, calculationRuns, newList: isChanged ? list.slice() : null }\<close>\<close>
  "snapshot st =
     \<lparr>isChanged_p = isChanged (engine st),
      calculationRuns_p = Some (calculationRuns st),
      percent_p = None,
      newList_p = (if isChanged (engine st) then Some (resultList (engine st)) else None)\<rparr>"

text \<open>
  The head of a round of the \<open>while\<close> loop: \<open>cycles++\<close> and, every 1000 rounds, the
  yield if the timer has run out. \<open>clock n\<close> says whether, in round \<open>n\<close>, more than
  \<open>UPDATE_MS\<close> have passed since the last yield: \<open>Date.now()\<close> is outside the program.
\<close>

definition maybeYield :: "(nat \<Rightarrow> bool) \<Rightarrow> search \<Rightarrow> search" where
  "maybeYield clock st =
     (let n = cycles st + 1 in
      if n mod 1000 = 0 \<and> clock n
      then st\<lparr>cycles := n, yielded := yielded st @ [snapshot st],
              engine := (engine st)\<lparr>isChanged := False\<rparr>\<rparr>
      else st\<lparr>cycles := n\<rparr>)"

text \<open>One round of the loop.\<close>

definition calcStep :: "tables \<Rightarrow> settings \<Rightarrow> (nat \<Rightarrow> bool) \<Rightarrow> search \<Rightarrow> error + search" where
  "calcStep T S clock st0 =
     (let st = maybeYield clock st0 in
      case calculationQueue st of
        [] \<Rightarrow> Inl InvalidInternalState
      | g # queue \<Rightarrow>
          (case calculationStatsQueue st of
             [] \<Rightarrow> Inl InvalidInternalState
           | gs # statsQueue \<Rightarrow>
               (let nextSlot = length g;
                    st1 = st\<lparr>calculationQueue := queue, calculationStatsQueue := statsQueue\<rparr>
                in if symmetrySkip S g then
                     Inr (st1\<lparr>calculationRuns :=
                                 jsadd (calculationRuns st1)
                                   (toNumber (nth_opt (runsAfterThisSlot S) nextSlot))\<rparr>)
                   else if nextSlot \<ge> length (slots S) then
                     (case testCharacter T S (engine st1) g gs of
                        Inl e \<Rightarrow> Inl e
                      | Inr co \<Rightarrow>
                          Inr (st1\<lparr>calculationRuns := jsadd (calculationRuns st1) (Num 1),
                                   engine := co,
                                   leafEvaluations := leafEvaluations st1 + 1\<rparr>))
                   else if nextSlot \<ge> length (affixesArray S) then Inl TypeError
                   else
                     (case pushClones S g gs [1 ..< length (affixesArray S ! nextSlot)]
                             (queue, statsQueue) of
                        Inl e \<Rightarrow> Inl e
                      | Inr qs \<Rightarrow>
                          (case affixStats S nextSlot 0 of
                             Inl e \<Rightarrow> Inl e
                           | Inr bonuses \<Rightarrow>
                               Inr (st1\<lparr>calculationQueue :=
                                          (g @ [nth_opt (affixesArray S ! nextSlot) 0]) # fst qs,
                                        calculationStatsQueue :=
                                          addGearStats gs bonuses # snd qs\<rparr>))))))"

text \<open>
  The size of the search below a gear prefix of length \<open>k\<close>: the prefix itself and, for
  each affix of slot \<open>k\<close> (at least one push is counted), the search below its extension.
\<close>

fun subtreeSize :: "nat list \<Rightarrow> nat" where
  "subtreeSize [] = 1"
| "subtreeSize (n # ns) = 1 + max 1 n * subtreeSize ns"

definition slotSizes :: "settings \<Rightarrow> nat list" where
  "slotSizes S = take (length (slots S)) (map length (affixesArray S))"

definition searchSize :: "settings \<Rightarrow> gear list \<Rightarrow> nat" where
  "searchSize S queue = sum_list (map (\<lambda>g. subtreeSize (drop (length g) (slotSizes S))) queue)"

text \<open>Each round of the loop makes the search that is left smaller.\<close>

lemma pushClones_queue:
  "pushClones S g gs idxs qs = Inr qs' \<Longrightarrow>
   fst qs' = rev (map (\<lambda>i. g @ [Some (affixesArray S ! length g ! i)]) idxs) @ fst qs \<and>
   length (snd qs') = length idxs + length (snd qs)"
  by (induction idxs arbitrary: qs) (auto split: sum.splits)

lemma searchSize_append: "searchSize S (xs @ ys) = searchSize S xs + searchSize S ys"
  by (simp add: searchSize_def)

lemma searchSize_children:
  "searchSize S (rev (map (\<lambda>i. g @ [f i]) idxs)) =
   length idxs * subtreeSize (drop (Suc (length g)) (slotSizes S))"
  by (induction idxs) (simp_all add: searchSize_def)

lemma subtreeSize_slot:
  assumes "k < length (slots S)" "k < length (affixesArray S)"
  shows "subtreeSize (drop k (slotSizes S)) =
         1 + max 1 (length (affixesArray S ! k)) * subtreeSize (drop (Suc k) (slotSizes S))"
proof -
  have "k < length (slotSizes S)" using assms by (simp add: slotSizes_def)
  moreover have "slotSizes S ! k = length (affixesArray S ! k)"
    using assms by (simp add: slotSizes_def)
  ultimately show ?thesis
    by (metis Cons_nth_drop_Suc subtreeSize.simps(2))
qed

lemma maybeYield_fields [simp]:
  "calculationQueue (maybeYield clock st) = calculationQueue st"
  "calculationStatsQueue (maybeYield clock st) = calculationStatsQueue st"
  "calculationRuns (maybeYield clock st) = calculationRuns st"
  "leafEvaluations (maybeYield clock st) = leafEvaluations st"
  "cycles (maybeYield clock st) = Suc (cycles st)"
  by (simp_all add: maybeYield_def Let_def)

text \<open>The three ways a round can go, once the top of the stacks is known.\<close>

lemma calcStep_skip:
  assumes "calculationQueue st = g # queue" "calculationStatsQueue st = gs # statsQueue"
    and "symmetrySkip S g"
  shows "calcStep T S clock st =
         Inr ((maybeYield clock st)
              \<lparr>calculationQueue := queue, calculationStatsQueue := statsQueue,
               calculationRuns :=
                 jsadd (calculationRuns st)
                   (toNumber (nth_opt (runsAfterThisSlot S) (length g)))\<rparr>)"
  using assms by (simp add: calcStep_def Let_def)

lemma calcStep_leaf:
  assumes "calculationQueue st = g # queue" "calculationStatsQueue st = gs # statsQueue"
    and "\<not> symmetrySkip S g" "length (slots S) \<le> length g"
  shows "calcStep T S clock st =
         (case testCharacter T S (engine (maybeYield clock st)) g gs of
            Inl e \<Rightarrow> Inl e
          | Inr co \<Rightarrow>
              Inr ((maybeYield clock st)
                   \<lparr>calculationQueue := queue, calculationStatsQueue := statsQueue,
                    calculationRuns := jsadd (calculationRuns st) (Num 1),
                    engine := co, leafEvaluations := leafEvaluations st + 1\<rparr>))"
  using assms by (simp add: calcStep_def Let_def split: sum.splits)

lemma calcStep_expand:
  assumes "calculationQueue st = g # queue" "calculationStatsQueue st = gs # statsQueue"
    and "\<not> symmetrySkip S g" "length g < length (slots S)"
  shows "calcStep T S clock st =
         (if length (affixesArray S) \<le> length g then Inl TypeError
          else
            (case pushClones S g gs [1 ..< length (affixesArray S ! length g)]
                    (queue, statsQueue) of
               Inl e \<Rightarrow> Inl e
             | Inr qs \<Rightarrow>
                 (case affixStats S (length g) 0 of
                    Inl e \<Rightarrow> Inl e
                  | Inr bonuses \<Rightarrow>
                      Inr ((maybeYield clock st)
                           \<lparr>calculationQueue :=
                              (g @ [nth_opt (affixesArray S ! length g) 0]) # fst qs,
                            calculationStatsQueue := addGearStats gs bonuses # snd qs\<rparr>))))"
  using assms by (simp add: calcStep_def Let_def split: sum.splits)

lemma calcStep_top:
  assumes "calcStep T S clock st = Inr st'"
  obtains g queue gs statsQueue where
    "calculationQueue st = g # queue" "calculationStatsQueue st = gs # statsQueue"
proof (cases "calculationQueue st")
  case Nil
  then show ?thesis using assms by (simp add: calcStep_def Let_def)
next
  case q: (Cons g queue)
  show ?thesis
  proof (cases "calculationStatsQueue st")
    case Nil
    then show ?thesis using assms q by (simp add: calcStep_def Let_def)
  next
    case (Cons gs statsQueue)
    then show ?thesis using q that by blast
  qed
qed

text \<open>
  What an expanding round leaves on the gear stack: one extension of the prefix for each
  affix of the slot, and one even if the slot has no affix.
\<close>

lemma calcStep_expand_queue:
  assumes "calculationQueue st = g # queue" "calculationStatsQueue st = gs # statsQueue"
    and "\<not> symmetrySkip S g" "length g < length (slots S)"
    and "calcStep T S clock st = Inr st'"
  obtains f b where
    "length g < length (affixesArray S)"
    "affixStats S (length g) 0 = Inr b"
    "calculationQueue st' =
       (g @ [nth_opt (affixesArray S ! length g) 0]) #
       rev (map (\<lambda>i. g @ [f i]) [1 ..< length (affixesArray S ! length g)]) @ queue"
    "length (calculationStatsQueue st') = length (affixesArray S ! length g) - 1 + Suc (length statsQueue)"
    "leafEvaluations st' = leafEvaluations st" "cycles st' = Suc (cycles st)"
proof -
  note eq = calcStep_expand[OF assms(1-4), of T clock]
  have ka: "length g < length (affixesArray S)"
    using assms(5) eq by (simp split: if_splits)
  obtain qs where
    pc: "pushClones S g gs [1 ..< length (affixesArray S ! length g)] (queue, statsQueue) = Inr qs"
    using assms(5) eq ka by (simp split: sum.splits)
  obtain b where fs: "affixStats S (length g) 0 = Inr b"
    using assms(5) eq ka pc by (simp split: sum.splits)
  have st': "st' = (maybeYield clock st)
                   \<lparr>calculationQueue := (g @ [nth_opt (affixesArray S ! length g) 0]) # fst qs,
                    calculationStatsQueue := addGearStats gs b # snd qs\<rparr>"
    using assms(5) eq ka pc fs by simp
  note pq = pushClones_queue[OF pc]
  show ?thesis
  proof (rule that[of b "\<lambda>i. Some (affixesArray S ! length g ! i)"])
    show "length g < length (affixesArray S)" by (rule ka)
    show "affixStats S (length g) 0 = Inr b" by (rule fs)
    show "calculationQueue st' =
       (g @ [nth_opt (affixesArray S ! length g) 0]) #
       rev (map (\<lambda>i. g @ [Some (affixesArray S ! length g ! i)])
              [1 ..< length (affixesArray S ! length g)]) @ queue"
      using pq by (simp add: st')
    show "length (calculationStatsQueue st') =
          length (affixesArray S ! length g) - 1 + Suc (length statsQueue)"
      using pq by (simp add: st')
    show "leafEvaluations st' = leafEvaluations st" by (simp add: st')
    show "cycles st' = Suc (cycles st)" by (simp add: st')
  qed
qed

lemma calcStep_searchSize:
  assumes "calcStep T S clock st = Inr st'"
  shows "searchSize S (calculationQueue st') < searchSize S (calculationQueue st)"
proof -
  from assms obtain g queue gs statsQueue where
    q: "calculationQueue st = g # queue" and sq: "calculationStatsQueue st = gs # statsQueue"
    by (rule calcStep_top)
  have pos: "0 < subtreeSize (drop (length g) (slotSizes S))"
    by (cases "drop (length g) (slotSizes S)") simp_all
  consider (skip) "symmetrySkip S g"
    | (leaf) "\<not> symmetrySkip S g" "length (slots S) \<le> length g"
    | (expand) "\<not> symmetrySkip S g" "length g < length (slots S)"
    by linarith
  then show ?thesis
  proof cases
    case skip
    then have "calculationQueue st' = queue"
      using assms calcStep_skip[OF q sq skip, of T clock] by auto
    then show ?thesis using q pos by (simp add: searchSize_def)
  next
    case leaf
    then have "calculationQueue st' = queue"
      using assms calcStep_leaf[OF q sq leaf, of T clock] by (auto split: sum.splits)
    then show ?thesis using q pos by (simp add: searchSize_def)
  next
    case expand
    from calcStep_expand_queue[OF q sq expand assms] obtain f b where
      ka: "length g < length (affixesArray S)"
      and q': "calculationQueue st' =
         (g @ [nth_opt (affixesArray S ! length g) 0]) #
         rev (map (\<lambda>i. g @ [f i]) [1 ..< length (affixesArray S ! length g)]) @ queue"
      by blast
    let ?n = "length (affixesArray S ! length g)"
    let ?W = "subtreeSize (drop (Suc (length g)) (slotSizes S))"
    have "searchSize S (calculationQueue st') =
          searchSize S [g @ [nth_opt (affixesArray S ! length g) 0]] +
          (searchSize S (rev (map (\<lambda>i. g @ [f i]) [1 ..< ?n])) + searchSize S queue)"
      unfolding q' by (simp add: searchSize_def)
    moreover have "searchSize S [g @ [nth_opt (affixesArray S ! length g) 0]] = ?W"
      by (simp add: searchSize_def)
    ultimately
    have "searchSize S (calculationQueue st') = ?W + (?n - 1) * ?W + searchSize S queue"
      by (simp only: searchSize_children) simp
    moreover have "?W + (?n - 1) * ?W \<le> max 1 ?n * ?W"
      by (cases ?n) (simp_all add: max_def)
    moreover have "searchSize S (calculationQueue st) = 1 + max 1 ?n * ?W + searchSize S queue"
      using q subtreeSize_slot[OF expand(2) ka] by (simp add: searchSize_def)
    ultimately show ?thesis by linarith
  qed
qed

function calcLoop :: "tables \<Rightarrow> settings \<Rightarrow> (nat \<Rightarrow> bool) \<Rightarrow> search \<Rightarrow> error + search" where
  \<comment> \<open>\<open>while (calculationQueue.length > 0) { ... }\<close>\<close>
  "calcLoop T S clock st =
     (if length (calculationQueue st) > 0 then
        (case calcStep T S clock st of Inl e \<Rightarrow> Inl e | Inr st' \<Rightarrow> calcLoop T S clock st')
      else Inr st)"
  by pat_completeness auto
termination
  by (relation "measure (\<lambda>(T, S, clock, st). searchSize S (calculationQueue st))")
    (auto simp: calcStep_searchSize)

declare calcLoop.simps [simp del]

definition startSearch :: "core \<Rightarrow> search" where
  \<comment> \<open>the state in which \<open>calculate\<close> enters its loop\<close>
  "startSearch co =
     \<lparr>calculationQueue = [[]], calculationStatsQueue = [[]], calculationRuns = Num 0,
      cycles = 0, engine = co\<lparr>isChanged := True\<rparr>, yielded = [], leafEvaluations = 0\<rparr>"

text \<open>
  \<open>calculate\<close>, run to its end: the values it yields, the value it returns and the core it
  leaves, or the error it throws.
\<close>

definition calculate ::
  "tables \<Rightarrow> settings \<Rightarrow> (nat \<Rightarrow> bool) \<Rightarrow> core \<Rightarrow> error + progress list \<times> progress \<times> core" where
  "calculate T S clock co =
     (if length (affixes S) = 0 then
        Inr ([],
             \<lparr>isChanged_p = True, calculationRuns_p = None, percent_p = Some (Num 100),
              newList_p = Some []\<rparr>,
             co)
      else
        (case calcLoop T S clock (startSearch co) of
           Inl e \<Rightarrow> Inl e
         | Inr st \<Rightarrow> Inr (yielded st, snapshot st, engine st)))"

section \<open>Clones and the objects they share\<close>

text \<open>
  Where the sharing of objects matters the character is a record of references into a
  store. The store holds the string-keyed objects (attributes, gear statistics, base
  attributes, infusions) at the addresses \<open>0, 1, ...\<close>; a new object takes the next
  address. The gear array and the settings are never copied: their references stand for
  them.
\<close>

type_synonym ref = nat

type_synonym store = "attrs list"

record characterRef =
  settings_r :: ref
  attributes_r :: "ref option"
  gear_r :: ref
  gearStats_r :: ref
  valid_r :: bool
  baseAttributes_r :: ref
  infusions_r :: "ref option"

definition alloc :: "store \<Rightarrow> attrs \<Rightarrow> ref \<times> store" where
  "alloc h obj = (length h, h @ [obj])"

definition cloneRef :: "store \<Rightarrow> characterRef \<Rightarrow> characterRef \<times> store" where
  \<comment> \<open>\<open>{ ...character.infusions }\<close> is an empty object when there are no infusions\<close>
  "cloneRef h c =
     (let (b, h1) = alloc h (h ! baseAttributes_r c);
          (i, h2) = alloc h1 (case infusions_r c of None \<Rightarrow> [] | Some r \<Rightarrow> h1 ! r)
      in (\<lparr>settings_r = settings_r c, attributes_r = attributes_r c, gear_r = gear_r c,
           gearStats_r = gearStats_r c, valid_r = valid_r c, baseAttributes_r = b,
           infusions_r = Some i\<rparr>, h2))"

definition writeRef :: "store \<Rightarrow> ref \<Rightarrow> string \<Rightarrow> jsnum \<Rightarrow> store" where
  \<comment> \<open>\<open>object[key] = value\<close> on the object at \<open>r\<close>\<close>
  "writeRef h r k v = h[r := setA (h ! r) k v]"

definition wellFormedRef :: "store \<Rightarrow> characterRef \<Rightarrow> bool" where
  \<comment> \<open>the references of the character point into the store\<close>
  "wellFormedRef h c =
     (baseAttributes_r c < length h \<and>
      (case infusions_r c of None \<Rightarrow> True | Some r \<Rightarrow> r < length h))"

definition writesTo :: "store \<Rightarrow> (ref \<times> string \<times> jsnum) list \<Rightarrow> store" where
  \<comment> \<open>a run of writes, each to a key of the object at a reference\<close>
  "writesTo h ws = foldl (\<lambda>s (r, k, v). writeRef s r k v) h ws"

section \<open>Notions the properties are stated with\<close>

subsection \<open>Condition damage\<close>

definition condiMult :: "attrs \<Rightarrow> string \<Rightarrow> jsnum" where
  \<comment> \<open>\<open>mult\<close> in \<open>calcCondi\<close>\<close>
  "condiMult dm c = jsmul (getA dm ''Condition Damage'') (getA dm (c @ '' Damage''))"

text \<open>
  What \<open>calcCondi\<close> leaves in the attributes for a condition \<open>c\<close>: the damage of a tick,
  the stacks, and as \<open>DPS\<close> the stacks times the damage, with \<open>1\<close> in place of a damage
  that is \<open>0\<close> or \<open>NaN\<close>.
\<close>

definition dpsStored :: "tables \<Rightarrow> settings \<Rightarrow> attrs \<Rightarrow> attrs \<Rightarrow> string \<Rightarrow> bool" where
  "dpsStored T S dm a c =
     (map_of a (c @ '' Damage'') =
        Some (conditionDamage T S c (getA a ''Condition Damage'') (condiMult dm c)) \<and>
      map_of a (c @ '' Stacks'') = Some (condiStacks a c) \<and>
      map_of a (c @ '' DPS'') =
        Some (jsmul (condiStacks a c) (orElse (getA a (c @ '' Damage'')) (Num 1))))"

definition condiWritten :: "string list \<Rightarrow> string set" where
  \<comment> \<open>the keys the loop of \<open>calcCondi\<close> writes\<close>
  "condiWritten cs = (\<Union>c \<in> set cs. {c @ '' Damage'', c @ '' Stacks'', c @ '' DPS''})"

subsection \<open>The condition cache\<close>

text \<open>
  The attributes \<open>calcCondi\<close> reads, with the relevant conditions of the settings; two
  attribute maps that agree on them; the score computed without the cache; and the scores
  that successive fast evaluations use, the cache handed from each to the next.
\<close>

definition condiInputs :: "settings \<Rightarrow> string list" where
  "condiInputs S =
     [''Expertise'', ''Condition Damage'', ''Condition Duration''] @
     concat (map (\<lambda>c. [c @ '' Duration'', c @ '' Coefficient'']) (relevantConditions S))"

definition sameCondiInputs :: "settings \<Rightarrow> attrs \<Rightarrow> attrs \<Rightarrow> bool" where
  "sameCondiInputs S a b = list_all (\<lambda>k. map_of a k = map_of b k) (condiInputs S)"

definition directCondi :: "tables \<Rightarrow> settings \<Rightarrow> attrs \<Rightarrow> jsnum" where
  "directCondi T S a =
     fst (calcCondi T S (damageMultiplier (modifiers S)) a (relevantConditions S))"

fun condiScoresUsed ::
  "tables \<Rightarrow> settings \<Rightarrow> (jsnum \<times> jsnum) list \<Rightarrow> attrs list \<Rightarrow> jsnum list" where
  "condiScoresUsed T S cache [] = []"
| "condiScoresUsed T S cache (a # as) =
     (case cachedCondi T S cache a of
        (score, a', cache') \<Rightarrow> score # condiScoresUsed T S cache' as)"

definition agreeOn :: "string set \<Rightarrow> attrs \<Rightarrow> attrs \<Rightarrow> bool" where
  "agreeOn K a b = (\<forall>k \<in> K. map_of a k = map_of b k)"

text \<open>The cache holds nothing but scores computed for attribute maps seen before.\<close>

definition cacheFrom ::
  "tables \<Rightarrow> settings \<Rightarrow> (jsnum \<times> jsnum) list \<Rightarrow> attrs set \<Rightarrow> bool" where
  "cacheFrom T S cache prev =
     (\<forall>k v. map_of cache k = Some v \<and> truthy v \<longrightarrow>
        (\<exists>p \<in> prev. condiCacheId p = k \<and> directCondi T S p = v))"

subsection \<open>The search\<close>

text \<open>
  The symmetry conditions in the words of the specification, and what it is for a round
  to skip the prefix on top of the stacks: both stacks lose their top, no character is
  tested, and \<open>runsAfterThisSlot[k]\<close> is added to the runs.
\<close>

definition specSkip :: "settings \<Rightarrow> gear \<Rightarrow> bool" where
  "specSkip S g =
     (let k = length g in
      (\<not> forcedArmor S \<and> k = 6 \<and> (affixGT (g ! 1) (g ! 3) \<or> affixGT (g ! 3) (g ! 5))) \<or>
      (\<not> forcedRing S \<and> k = 9 \<and> affixGT (g ! 7) (g ! 8)) \<or>
      (\<not> forcedAcc S \<and> k = 11 \<and> affixGT (g ! 9) (g ! 10)) \<or>
      (\<not> forcedWep S \<and> k = 14 \<and> affixGT (g ! 12) (g ! 13)))"

definition skipsTop :: "settings \<Rightarrow> search \<Rightarrow> search \<Rightarrow> bool" where
  "skipsTop S st st' =
     (calculationQueue st' = tl (calculationQueue st) \<and>
      calculationStatsQueue st' = tl (calculationStatsQueue st) \<and>
      leafEvaluations st' = leafEvaluations st \<and>
      calculationRuns st' =
        jsadd (calculationRuns st)
          (toNumber (nth_opt (runsAfterThisSlot S) (length (hd (calculationQueue st))))))"


definition leafCap :: "settings \<Rightarrow> gear list \<Rightarrow> nat" where
  "leafCap S queue = sum_list (map (\<lambda>g. prod_list (drop (length g) (slotSizes S))) queue)"






section \<open>Example data\<close>

text \<open>
  A small game: two conditions, one gear slot with one affix, and a character with the
  usual base attributes. The properties below are evaluated on it.
\<close>

definition exampleTables :: tables where
  "exampleTables =
     \<lparr>allAttributePointKeys =
        [''Power'', ''Precision'', ''Toughness'', ''Vitality'', ''Ferocity'',
         ''Condition Damage'', ''Expertise'', ''Concentration'', ''Healing Power''],
      conditionData =
        (\<lambda>c. if c = ''Burning'' then (Num (155 / 1000), Num 131)
             else if c = ''Bleeding'' then (Num (6 / 100), Num 22)
             else (Num 0, Num 0)),
      INFUSION_BONUS = 5,
      INDICATORS = [''Damage'', ''Survivability'', ''Healing''],
      CONDITION = [''Bleeding'', ''Burning'']\<rparr>"

definition exampleMultipliers :: attrs where
  "exampleMultipliers =
     [(''Strike Damage'', Num 1), (''Critical Damage'', Num 1), (''Condition Damage'', Num 1),
      (''Bleeding Damage'', Num 1), (''Burning Damage'', Num 1), (''Siphon Damage'', Num 1),
      (''Damage Taken'', Num 1)]"

definition exampleModifiers :: modifiers where
  "exampleModifiers =
     \<lparr>convert = [], buff = [], convertAfterBuffs = [],
      damageMultiplier = exampleMultipliers, bountiful_maintenance_oil = False\<rparr>"

definition exampleBase :: attrs where
  "exampleBase =
     [(''Power'', Num 1000), (''Precision'', Num 1000), (''Toughness'', Num 1000),
      (''Vitality'', Num 1000), (''Ferocity'', Num 0), (''Condition Damage'', Num 0),
      (''Expertise'', Num 0), (''Concentration'', Num 0), (''Healing Power'', Num 0),
      (''Armor'', Num 1000), (''Health'', Num 1645), (''Critical Chance'', Num (5 / 100)),
      (''Critical Damage'', Num (3 / 2)), (''Boon Duration'', Num 0),
      (''Condition Duration'', Num 0), (''Power Coefficient'', Num 2597)]"

definition exampleSettings :: settings where
  "exampleSettings =
     \<lparr>rankby = Damage, minBoonDuration = None, minHealingPower = None, minToughness = None,
      maxToughness = None, minHealth = None, minCritChance = None, maxResults = 1,
      primaryInfusion = ''Power'', secondaryInfusion = ''Precision'',
      primaryMaxInfusions = 0, secondaryMaxInfusions = 0, maxInfusions = 0,
      distribution = [(''Power'', Num 2597)], attackRate = Num 0, movementUptime = Num 0,
      infusionMode = ''None'', affixes = [''Berserker''],
      forcedRing = False, forcedAcc = False, forcedWep = False, forcedArmor = False,
      slots = [''Helm''], runsAfterThisSlot = [Num 1, Num 1],
      affixesArray = [[''Berserker'']], affixStatsArray = [[[(''Power'', Num 63)]]],
      baseAttributes_s = exampleBase, modifiers = exampleModifiers,
      disableCondiResultCache = False, relevantConditions = [''Burning'']\<rparr>"


definition exampleCore :: core where
  \<comment> \<open>the core as the constructor leaves it\<close>
  "exampleCore =
     \<lparr>applyInfusionsFunction = ApplyInfusionsNone, condiResultCache = [], worstScore = Num 0,
      resultList = [], isChanged = True, uniqueIDCounter = 0\<rparr>"

definition exampleCharacter :: character where
  "exampleCharacter =
     \<lparr>gear = [Some ''Berserker''], gearStats = [(''Power'', Num 63)], attributes = None,
      valid = True, baseAttributes = exampleBase, infusions = None, id_c = None\<rparr>"

text \<open>Two attribute maps with the cache key \<open>1250\<close>, and a third that shares all of the
  first but its power.\<close>

definition expertAttributes :: attrs where
  "expertAttributes =
     [(''Power'', Num 1000), (''Expertise'', Num 1250), (''Condition Damage'', Num 0),
      (''Condition Duration'', Num 0), (''Burning Coefficient'', Num 1)]"

definition fractionAttributes :: attrs where
  "fractionAttributes =
     [(''Power'', Num 1000), (''Expertise'', Num 0), (''Condition Damage'', Num (1 / 8)),
      (''Condition Duration'', Num 0), (''Burning Coefficient'', Num 1)]"

definition strongAttributes :: attrs where
  "strongAttributes =
     [(''Power'', Num 2000), (''Expertise'', Num 1250), (''Condition Damage'', Num 0),
      (''Condition Duration'', Num 0), (''Burning Coefficient'', Num 1)]"

text \<open>Attributes and multipliers under which a tick of burning does no damage.\<close>

definition burningAttributes :: attrs where
  "burningAttributes =
     [(''Expertise'', Num 0), (''Condition Damage'', Num 1000),
      (''Condition Duration'', Num 0), (''Burning Coefficient'', Num 3)]"

definition noBurningDamage :: attrs where
  "noBurningDamage = [(''Condition Damage'', Num 1), (''Burning Damage'', Num 0)]"

text \<open>A search state with one gear prefix of nine slots, its two rings out of order.\<close>

definition ringsOutOfOrder :: gear where
  "ringsOutOfOrder =
     [Some ''Berserker'', Some ''Berserker'', Some ''Berserker'', Some ''Berserker'',
      Some ''Berserker'', Some ''Berserker'', Some ''Berserker'', Some ''Berserker'',
      Some ''Assassin'']"

definition exampleSearch :: search where
  "exampleSearch =
     \<lparr>calculationQueue = [ringsOutOfOrder], calculationStatsQueue = [[]],
      calculationRuns = Num 0, cycles = 0, engine = exampleCore, yielded = [],
      leafEvaluations = 0\<rparr>"

text \<open>A store with the base attributes and the infusions of one character.\<close>

definition exampleStore :: store where
  "exampleStore = [[(''Power'', Num 1000)], [(''Power'', Num 2)]]"

definition exampleRef :: characterRef where
  "exampleRef =
     \<lparr>settings_r = 0, attributes_r = None, gear_r = 0, gearStats_r = 0, valid_r = True,
      baseAttributes_r = 0, infusions_r = Some 1\<rparr>"

section \<open>Evaluating the example\<close>

text \<open>
  The attribute maps of the example are read through the facts below, and a map that was
  written to is read through \<open>map_of_setA\<close>, so that an evaluation compares keys and
  never walks a list.
\<close>

lemma map_of_setA: "map_of (setA m k v) = (map_of m)(k \<mapsto> v)"
  by (simp add: setA_def update_conv')

lemma getA_setA: "getA (setA m k v) k' = (if k' = k then v else getA m k')"
  by (simp add: getA_def map_of_setA toNumber_def)

lemma exampleBase_lookup:
  "map_of exampleBase ''Power'' = Some (Num 1000)"
  "map_of exampleBase ''Precision'' = Some (Num 1000)"
  "map_of exampleBase ''Toughness'' = Some (Num 1000)"
  "map_of exampleBase ''Vitality'' = Some (Num 1000)"
  "map_of exampleBase ''Ferocity'' = Some (Num 0)"
  "map_of exampleBase ''Condition Damage'' = Some (Num 0)"
  "map_of exampleBase ''Expertise'' = Some (Num 0)"
  "map_of exampleBase ''Concentration'' = Some (Num 0)"
  "map_of exampleBase ''Healing Power'' = Some (Num 0)"
  "map_of exampleBase ''Armor'' = Some (Num 1000)"
  "map_of exampleBase ''Health'' = Some (Num 1645)"
  "map_of exampleBase ''Critical Chance'' = Some (Num (5 / 100))"
  "map_of exampleBase ''Critical Damage'' = Some (Num (3 / 2))"
  "map_of exampleBase ''Boon Duration'' = Some (Num 0)"
  "map_of exampleBase ''Condition Duration'' = Some (Num 0)"
  "map_of exampleBase ''Power Coefficient'' = Some (Num 2597)"
  "map_of exampleBase ''Maximum Health'' = None"
  "map_of exampleBase ''Siphon Base Coefficient'' = None"
  "map_of exampleBase ''Flat DPS'' = None"
  "map_of exampleBase ''Outgoing Healing'' = None"
  "map_of exampleBase ''Bleeding Duration'' = None"
  "map_of exampleBase ''Bleeding Coefficient'' = None"
  "map_of exampleBase ''Burning Duration'' = None"
  "map_of exampleBase ''Burning Coefficient'' = None"
  "map_of exampleBase ''Critical Chance -37'' = None"
  by (simp_all add: exampleBase_def)

lemma exampleMultipliers_lookup:
  "map_of exampleMultipliers ''Strike Damage'' = Some (Num 1)"
  "map_of exampleMultipliers ''Critical Damage'' = Some (Num 1)"
  "map_of exampleMultipliers ''Condition Damage'' = Some (Num 1)"
  "map_of exampleMultipliers ''Bleeding Damage'' = Some (Num 1)"
  "map_of exampleMultipliers ''Burning Damage'' = Some (Num 1)"
  "map_of exampleMultipliers ''Siphon Damage'' = Some (Num 1)"
  "map_of exampleMultipliers ''Damage Taken'' = Some (Num 1)"
  by (simp_all add: exampleMultipliers_def)

lemma exampleTables_sel:
  "allAttributePointKeys exampleTables =
     [''Power'', ''Precision'', ''Toughness'', ''Vitality'', ''Ferocity'',
      ''Condition Damage'', ''Expertise'', ''Concentration'', ''Healing Power'']"
  "conditionData exampleTables c =
     (if c = ''Burning'' then (Num (155 / 1000), Num 131)
      else if c = ''Bleeding'' then (Num (6 / 100), Num 22)
      else (Num 0, Num 0))"
  "INFUSION_BONUS exampleTables = 5"
  "INDICATORS exampleTables = [''Damage'', ''Survivability'', ''Healing'']"
  "CONDITION exampleTables = [''Bleeding'', ''Burning'']"
  by (simp_all add: exampleTables_def)

lemma exampleModifiers_sel:
  "convert exampleModifiers = []"
  "buff exampleModifiers = []"
  "convertAfterBuffs exampleModifiers = []"
  "damageMultiplier exampleModifiers = exampleMultipliers"
  "bountiful_maintenance_oil exampleModifiers = False"
  by (simp_all add: exampleModifiers_def)

lemma exampleSettings_sel:
  "rankby exampleSettings = Damage"
  "maxResults exampleSettings = 1"
  "minBoonDuration exampleSettings = None"
  "minHealingPower exampleSettings = None"
  "minToughness exampleSettings = None"
  "maxToughness exampleSettings = None"
  "minHealth exampleSettings = None"
  "minCritChance exampleSettings = None"
  "distribution exampleSettings = [(''Power'', Num 2597)]"
  "attackRate exampleSettings = Num 0"
  "movementUptime exampleSettings = Num 0"
  "slots exampleSettings = [''Helm'']"
  "affixesArray exampleSettings = [[''Berserker'']]"
  "affixStatsArray exampleSettings = [[[(''Power'', Num 63)]]]"
  "runsAfterThisSlot exampleSettings = [Num 1, Num 1]"
  "forcedRing exampleSettings = False"
  "forcedAcc exampleSettings = False"
  "forcedWep exampleSettings = False"
  "forcedArmor exampleSettings = False"
  "baseAttributes_s exampleSettings = exampleBase"
  "modifiers exampleSettings = exampleModifiers"
  "disableCondiResultCache exampleSettings = False"
  "relevantConditions exampleSettings = [''Burning'']"
  by (simp_all add: exampleSettings_def)


lemmas example_sel = exampleTables_sel exampleModifiers_sel exampleSettings_sel
  exampleBase_lookup exampleMultipliers_lookup

lemmas eval_defs = jssub_def jsgt_def orElse_def toNumber_def getA_def addTo_def map_of_setA
  signed_inf_def jsrem_def trunc_def mathRound_def
  calcStats_def maybeRoundFor_def convertStep_def convertAfterStep_def
  critChanceLess_def calcPower_def calcCondi_def condiStep_def condiStacks_def condiDuration_def
  conditionDamage_def conditionDamageTick_def calcSurvivability_def calcHealing_def flatDPS_def
  updateAttributes_def Let_def

lemmas eval_congs = let_weak_cong prod.case_cong_weak sum.case_cong_weak option.case_cong_weak

section \<open>Rounding to even\<close>

text \<open>
  C4 (the code departs from its documentation). \<open>roundEven\<close> is documented to break exact
  halves towards the even neighbour. For a negative half the remainder \<open>number % 1\<close> is
  \<open>-0.5\<close>, the tie test fails and \<open>Math.round\<close> rounds up: \<open>roundEven(-1.5)\<close> is the odd
  \<open>-1\<close>, while \<open>roundEven(0.5)\<close>, two units above, is \<open>0\<close>.
\<close>

theorem roundEven_negative_half:
  "roundEven (Num (- (3 / 2))) = Num (- 1) \<and> roundEven (Num (1 / 2)) = Num 0"
  by code_simp

section \<open>The conversion from critical chance\<close>

text \<open>
  C7 (the code departs from the claim). A conversion after the buffs whose source is
  \<open>Critical Chance -37\<close> adds two terms: the one that the other branches add, and then
  \<open>maybeRound(attributes[source] * percent)\<close>, where no attribute has the name of the
  source. With a precision of 1945 the critical chance is 0.5, and a conversion of 100
  would add 13 to the power of 1000; the second term is \<open>NaN\<close>, and so is the power.
\<close>

theorem calcStats_critical_chance_37:
  "getA
     (calcStats exampleTables
        (exampleSettings
           \<lparr>modifiers :=
              exampleModifiers
                \<lparr>convertAfterBuffs := [(''Power'', [(''Critical Chance -37'', Num 100)])]\<rparr>\<rparr>)
        (setA exampleBase ''Precision'' (Num 1945)) False)
     ''Power'' = NaN \<and>
   jsadd (Num 1000)
     (roundEven (jsmul (clamp (jssub (Num (1 / 2)) (Num (37 / 100))) (Num 0) (Num 1)) (Num 100)))
     = Num 1013"
  by (simp add: eval_defs example_sel floor_eq_iff cong: eval_congs)

section \<open>Power damage\<close>

text \<open>
  C6 (the code departs from the claim). \<open>calcPower\<close> returns the power damage plus the
  siphon damage, but what it stores as \<open>Siphon DPS\<close> is the power damage. With a siphon
  coefficient of 50 the siphon damage is 50 and the power damage 1025: the score is 1075,
  and \<open>Siphon DPS\<close> is 1025.
\<close>

theorem calcPower_siphon_DPS:
  "fst (calcPower exampleMultipliers (setA exampleBase ''Siphon Base Coefficient'' (Num 50)))
     = Num 1075 \<and>
   getA (snd (calcPower exampleMultipliers
                (setA exampleBase ''Siphon Base Coefficient'' (Num 50)))) ''Power DPS''
     = Num 1025 \<and>
   getA (snd (calcPower exampleMultipliers
                (setA exampleBase ''Siphon Base Coefficient'' (Num 50)))) ''Siphon DPS''
     = Num 1025"
  by (simp add: eval_defs example_sel cong: eval_congs)

section \<open>Condition damage\<close>

text \<open>The keys that \<open>calcCondi\<close> reads and writes differ in their last character.\<close>

lemma append_neq_last:
  assumes "s1 \<noteq> []" "s2 \<noteq> []" "last s1 \<noteq> last s2"
  shows "c @ s1 \<noteq> c' @ s2"
proof
  assume "c @ s1 = c' @ s2"
  then have "last (c @ s1) = last (c' @ s2)" by simp
  then show False using assms by simp
qed

lemma key_neq_last:
  assumes "s1 \<noteq> []" "k \<noteq> []" "last s1 \<noteq> last k"
  shows "c @ s1 \<noteq> k" "k \<noteq> c @ s1"
  using append_neq_last[OF assms(1,2,3), of c "[]"] by auto

lemmas condi_key_neq =
  append_neq_last[of "'' Damage''" "'' Stacks''", simplified]
  append_neq_last[of "'' Damage''" "'' DPS''", simplified]
  append_neq_last[of "'' Damage''" "'' Coefficient''", simplified]
  append_neq_last[of "'' Damage''" "'' Duration''", simplified]
  append_neq_last[of "'' Stacks''" "'' Damage''", simplified]
  append_neq_last[of "'' Stacks''" "'' DPS''", simplified]
  append_neq_last[of "'' Stacks''" "'' Coefficient''", simplified]
  append_neq_last[of "'' Stacks''" "'' Duration''", simplified]
  append_neq_last[of "'' DPS''" "'' Damage''", simplified]
  append_neq_last[of "'' DPS''" "'' Stacks''", simplified]
  append_neq_last[of "'' DPS''" "'' Coefficient''", simplified]
  append_neq_last[of "'' DPS''" "'' Duration''", simplified]
  append_neq_last[of "'' Coefficient''" "'' Damage''", simplified]
  append_neq_last[of "'' Coefficient''" "'' Stacks''", simplified]
  append_neq_last[of "'' Coefficient''" "'' DPS''", simplified]
  append_neq_last[of "'' Duration''" "'' Damage''", simplified]
  append_neq_last[of "'' Duration''" "'' Stacks''", simplified]
  append_neq_last[of "'' Duration''" "'' DPS''", simplified]
  key_neq_last[of "'' Damage''" "''Condition Duration''", simplified]
  key_neq_last[of "'' Stacks''" "''Condition Duration''", simplified]
  key_neq_last[of "'' DPS''" "''Condition Duration''", simplified]
  key_neq_last[of "'' Stacks''" "''Condition Damage''", simplified]
  key_neq_last[of "'' DPS''" "''Condition Damage''", simplified]

lemma condiStacks_frame:
  assumes "map_of a' (c @ '' Coefficient'') = map_of a (c @ '' Coefficient'')"
    and "map_of a' (c @ '' Duration'') = map_of a (c @ '' Duration'')"
    and "map_of a' ''Condition Duration'' = map_of a ''Condition Duration''"
  shows "condiStacks a' c = condiStacks a c"
  using assms by (simp add: condiStacks_def condiDuration_def getA_def)

lemma condiStep_eq:
  "condiStep T S dm (s, a) c =
     (let d = conditionDamage T S c (getA a ''Condition Damage'') (condiMult dm c);
          st = condiStacks a c;
          dps = jsmul st (orElse d (Num 1))
      in (jsadd s dps,
          setA (setA (setA a (c @ '' Damage'') d) (c @ '' Stacks'') st) (c @ '' DPS'') dps))"
proof -
  have "condiStacks (setA a (c @ '' Damage'')
           (conditionDamage T S c (getA a ''Condition Damage'') (condiMult dm c))) c
        = condiStacks a c"
    by (rule condiStacks_frame) (simp_all add: map_of_setA condi_key_neq)
  then show ?thesis
    by (simp add: condiStep_def Let_def condiMult_def getA_setA condi_key_neq)
qed


lemma condition_damage_key: "(c @ '' Damage'' = ''Condition Damage'') = (c = ''Condition'')"
proof -
  have "''Condition Damage'' = ''Condition'' @ '' Damage''" by simp
  then show ?thesis by (simp only: append_same_eq)
qed

lemma condiWritten_own:
  "c \<notin> set cs \<Longrightarrow> c @ '' Damage'' \<notin> condiWritten cs"
  "c \<notin> set cs \<Longrightarrow> c @ '' Stacks'' \<notin> condiWritten cs"
  "c \<notin> set cs \<Longrightarrow> c @ '' DPS'' \<notin> condiWritten cs"
  by (auto simp: condiWritten_def condi_key_neq)

lemma condiWritten_inputs:
  "c @ '' Coefficient'' \<notin> condiWritten cs"
  "c @ '' Duration'' \<notin> condiWritten cs"
  "''Condition Duration'' \<notin> condiWritten cs"
  "''Condition'' \<notin> set cs \<Longrightarrow> ''Condition Damage'' \<notin> condiWritten cs"
  using condition_damage_key by (auto simp: condiWritten_def condi_key_neq)

lemma condiStep_frame:
  assumes "condiStep T S dm (s, a) c = (s1, a1)" and "k \<notin> condiWritten [c]"
  shows "map_of a1 k = map_of a k"
  using assms by (auto simp: condiStep_eq Let_def map_of_setA condiWritten_def)

lemma condi_fold:
  assumes "distinct cs" and "''Condition'' \<notin> set cs"
    and "foldl (condiStep T S dm) (s0, a0) cs = (s, a')"
  shows "(\<forall>c \<in> set cs. dpsStored T S dm a' c) \<and>
         s = foldl jsadd s0 (map (\<lambda>c. getA a' (c @ '' DPS'')) cs) \<and>
         (\<forall>k. k \<notin> condiWritten cs \<longrightarrow> map_of a' k = map_of a0 k)"
  using assms
proof (induction cs arbitrary: s0 a0)
  case Nil
  then show ?case by simp
next
  case (Cons c cs)
  define d where "d = conditionDamage T S c (getA a0 ''Condition Damage'') (condiMult dm c)"
  define st where "st = condiStacks a0 c"
  define dps where "dps = jsmul st (orElse d (Num 1))"
  define a1 where
    "a1 = setA (setA (setA a0 (c @ '' Damage'') d) (c @ '' Stacks'') st) (c @ '' DPS'') dps"
  have step: "condiStep T S dm (s0, a0) c = (jsadd s0 dps, a1)"
    by (simp add: condiStep_eq Let_def d_def st_def dps_def a1_def)
  have rest: "foldl (condiStep T S dm) (jsadd s0 dps, a1) cs = (s, a')"
    using Cons.prems(3) step by simp
  have c: "c \<notin> set cs" "distinct cs" "''Condition'' \<notin> set cs" "c \<noteq> ''Condition''"
    using Cons.prems(1,2) by auto
  from Cons.IH[OF c(2,3) rest]
  have ih: "\<forall>c \<in> set cs. dpsStored T S dm a' c"
    and sum: "s = foldl jsadd (jsadd s0 dps) (map (\<lambda>c. getA a' (c @ '' DPS'')) cs)"
    and frame: "\<And>k. k \<notin> condiWritten cs \<Longrightarrow> map_of a' k = map_of a1 k"
    by auto
  have a1: "map_of a1 = (map_of a0)(c @ '' Damage'' \<mapsto> d, c @ '' Stacks'' \<mapsto> st,
                                   c @ '' DPS'' \<mapsto> dps)"
    by (simp add: a1_def map_of_setA)
  have own: "map_of a' (c @ '' Damage'') = Some d" "map_of a' (c @ '' Stacks'') = Some st"
    "map_of a' (c @ '' DPS'') = Some dps"
    using frame condiWritten_own[OF c(1)] by (simp_all add: a1 condi_key_neq)
  have inputs: "map_of a' (c @ '' Coefficient'') = map_of a0 (c @ '' Coefficient'')"
    "map_of a' (c @ '' Duration'') = map_of a0 (c @ '' Duration'')"
    "map_of a' ''Condition Duration'' = map_of a0 ''Condition Duration''"
    "map_of a' ''Condition Damage'' = map_of a0 ''Condition Damage''"
    using frame condiWritten_inputs c(3,4)
    by (simp_all add: a1 condi_key_neq condition_damage_key)
  have stacks: "condiStacks a' c = st"
    unfolding st_def by (rule condiStacks_frame) (rule inputs)+
  have "dpsStored T S dm a' c"
    using own stacks inputs(4) by (simp add: dpsStored_def getA_def toNumber_def d_def dps_def)
  moreover have "getA a' (c @ '' DPS'') = dps"
    using own by (simp add: getA_def toNumber_def)
  moreover have "map_of a' k = map_of a0 k" if "k \<notin> condiWritten (c # cs)" for k
  proof -
    have "k \<notin> condiWritten cs" "k \<noteq> c @ '' Damage''" "k \<noteq> c @ '' Stacks''" "k \<noteq> c @ '' DPS''"
      using that by (auto simp: condiWritten_def)
    then show ?thesis using frame by (simp add: a1)
  qed
  ultimately show ?case using ih sum by simp
qed

text \<open>
  C1, as the code has it. For the conditions of a list without repetition (and without a
  condition named \<open>Condition\<close>, whose damage would be stored as the condition damage
  itself), \<open>calcCondi\<close> leaves for each condition \<open>c\<close> the damage of a tick as
  \<open>c Damage\<close>, the stacks \<open>(attributes[c Coefficient] || 0) * duration\<close> as \<open>c Stacks\<close>,
  and as \<open>c DPS\<close> the stacks times \<open>(c Damage || 1)\<close>; the score is the sum of these
  \<open>DPS\<close>. So the product is stacks times damage when the damage is not zero, and the
  stacks themselves when it is.
\<close>

theorem calcCondi_DPS:
  assumes "distinct conditions" and "''Condition'' \<notin> set conditions"
    and "calcCondi T S dm attrs conditions = (score, a')"
  shows "(\<forall>c \<in> set conditions. dpsStored T S dm a' c) \<and>
         score = foldl jsadd (Num 0) (map (\<lambda>c. getA a' (c @ '' DPS'')) conditions)"
  using condi_fold[OF assms(1,2)] assms(3) by (simp add: calcCondi_def Let_def)

theorem calcCondi_DPS_witness:
  "distinct [''Bleeding'', ''Burning''] \<and> ''Condition'' \<notin> set [''Bleeding'', ''Burning''] \<and>
   dpsStored exampleTables exampleSettings exampleMultipliers
     (snd (calcCondi exampleTables exampleSettings exampleMultipliers expertAttributes
             [''Bleeding'', ''Burning''])) ''Burning'' \<and>
   fst (calcCondi exampleTables exampleSettings exampleMultipliers expertAttributes
          [''Bleeding'', ''Burning'']) =
   foldl jsadd (Num 0)
     (map (\<lambda>c. getA (snd (calcCondi exampleTables exampleSettings exampleMultipliers
                              expertAttributes [''Bleeding'', ''Burning''])) (c @ '' DPS''))
        [''Bleeding'', ''Burning''])"
proof -
  have d: "distinct [''Bleeding'', ''Burning'']"
    and n: "''Condition'' \<notin> set [''Bleeding'', ''Burning'']"
    by simp_all
  show ?thesis
    using calcCondi_DPS[OF d n surjective_pairing] d n by simp
qed

text \<open>
  The claim as it is written fails where a tick does no damage. With a multiplier of 0
  for burning the damage of a tick is 0; the three stacks then count as a \<open>DPS\<close> of 3, not
  of 0.
\<close>

theorem calcCondi_zero_damage_counterexample:
  "getA (snd (calcCondi exampleTables exampleSettings noBurningDamage burningAttributes
                [''Burning''])) ''Burning Damage'' = Num 0 \<and>
   getA (snd (calcCondi exampleTables exampleSettings noBurningDamage burningAttributes
                [''Burning''])) ''Burning Stacks'' = Num 3 \<and>
   getA (snd (calcCondi exampleTables exampleSettings noBurningDamage burningAttributes
                [''Burning''])) ''Burning DPS'' = Num 3 \<and>
   fst (calcCondi exampleTables exampleSettings noBurningDamage burningAttributes
          [''Burning'']) = Num 3 \<and>
   jsmul (Num 3) (Num 0) = Num 0"
  by (simp add: eval_defs example_sel noBurningDamage_def burningAttributes_def
      cong: eval_congs)

section \<open>The condition cache\<close>

text \<open>
  The score of \<open>calcCondi\<close> depends on the attributes it reads only.
\<close>

lemma condiStep_agree:
  assumes "agreeOn K a b"
    and "''Condition Damage'' \<in> K" "''Condition Duration'' \<in> K"
    and "c @ '' Duration'' \<in> K" "c @ '' Coefficient'' \<in> K"
  shows "fst (condiStep T S dm (s, a) c) = fst (condiStep T S dm (s, b) c) \<and>
         agreeOn K (snd (condiStep T S dm (s, a) c)) (snd (condiStep T S dm (s, b) c))"
proof -
  have cd: "getA a ''Condition Damage'' = getA b ''Condition Damage''"
    using assms(1,2) by (simp add: agreeOn_def getA_def)
  have st: "condiStacks a c = condiStacks b c"
    using assms(1,3,4,5) by (intro condiStacks_frame) (simp_all add: agreeOn_def)
  show ?thesis
    using assms(1) by (simp add: condiStep_eq Let_def cd st map_of_setA agreeOn_def)
qed

lemma condi_fold_agree:
  assumes "agreeOn K a b"
    and "''Condition Damage'' \<in> K" "''Condition Duration'' \<in> K"
    and "\<forall>c \<in> set cs. c @ '' Duration'' \<in> K \<and> c @ '' Coefficient'' \<in> K"
  shows "fst (foldl (condiStep T S dm) (s, a) cs) = fst (foldl (condiStep T S dm) (s, b) cs)"
  using assms
proof (induction cs arbitrary: s a b)
  case Nil
  then show ?case by simp
next
  case (Cons c cs)
  obtain s1 a1 where sa: "condiStep T S dm (s, a) c = (s1, a1)" by (cases "condiStep T S dm (s, a) c")
  obtain s2 b1 where sb: "condiStep T S dm (s, b) c = (s2, b1)" by (cases "condiStep T S dm (s, b) c")
  have "s1 = s2 \<and> agreeOn K a1 b1"
    using condiStep_agree[OF Cons.prems(1,2,3), of c T S dm s] Cons.prems(4) sa sb by simp
  then show ?case
    using Cons.IH[of a1 b1 s1] Cons.prems(2,3,4) sa sb by simp
qed

lemma directCondi_same:
  assumes "sameCondiInputs S a b"
  shows "directCondi T S a = directCondi T S b"
proof -
  let ?K = "set (condiInputs S)"
  have agree: "agreeOn ?K a b"
    using assms by (simp add: sameCondiInputs_def agreeOn_def list_all_iff)
  have keys: "''Expertise'' \<in> ?K" "''Condition Damage'' \<in> ?K" "''Condition Duration'' \<in> ?K"
    "\<forall>c \<in> set (relevantConditions S). c @ '' Duration'' \<in> ?K \<and> c @ '' Coefficient'' \<in> ?K"
    by (auto simp: condiInputs_def)
  have ex: "getA a ''Expertise'' = getA b ''Expertise''"
    and cd: "getA a ''Condition Duration'' = getA b ''Condition Duration''"
    using agree keys(1,3) by (simp_all add: agreeOn_def getA_def)
  have "agreeOn ?K
          (addTo a ''Condition Duration'' (jsdiv (jsdiv (getA a ''Expertise'') (Num 15)) (Num 100)))
          (addTo b ''Condition Duration'' (jsdiv (jsdiv (getA b ''Expertise'') (Num 15)) (Num 100)))"
    using agree by (simp add: addTo_def map_of_setA agreeOn_def ex cd)
  from condi_fold_agree[OF this keys(2,3,4)]
  show ?thesis by (simp add: directCondi_def calcCondi_def Let_def)
qed

lemma cachedCondi_step:
  assumes inv: "cacheFrom T S cache prev"
    and compat: "\<forall>p \<in> prev. condiCacheId p = condiCacheId a \<longrightarrow> sameCondiInputs S p a"
    and res: "cachedCondi T S cache a = (score, a', cache')"
  shows "score = directCondi T S a \<and> cacheFrom T S cache' (insert a prev)"
proof -
  have mono: "cacheFrom T S cache (insert a prev)"
    using inv by (auto simp: cacheFrom_def)
  consider (off) "disableCondiResultCache S"
    | (none) "\<not> disableCondiResultCache S" "relevantConditions S = []"
    | (on) "\<not> disableCondiResultCache S" "relevantConditions S \<noteq> []"
    by blast
  then show ?thesis
  proof cases
    case off
    then show ?thesis
      using res mono by (auto simp: cachedCondi_def Let_def directCondi_def split: prod.splits)
  next
    case none
    then show ?thesis
      using res mono by (auto simp: cachedCondi_def Let_def directCondi_def calcCondi_def)
  next
    case on
    let ?id = "condiCacheId a"
    let ?cached = "toNumber (map_of cache ?id)"
    have score: "score = (if truthy ?cached then ?cached else directCondi T S a)"
      and cache': "cache' = AList.update ?id score cache"
      using res on by (auto simp: cachedCondi_def Let_def directCondi_def split: prod.splits if_splits)
    have "score = directCondi T S a"
    proof (cases "truthy ?cached")
      case True
      then obtain v where v: "map_of cache ?id = Some v" "truthy v" "?cached = v"
        by (cases "map_of cache ?id") (auto simp: toNumber_def)
      then obtain p where "p \<in> prev" "condiCacheId p = ?id" "directCondi T S p = v"
        using inv by (auto simp: cacheFrom_def)
      then have "directCondi T S a = v"
        using compat directCondi_same[of S p a T] by auto
      then show ?thesis using score True v by simp
    next
      case False
      then show ?thesis using score by simp
    qed
    moreover have "cacheFrom T S cache' (insert a prev)"
      using mono calculation unfolding cacheFrom_def cache'
      by (auto simp: update_conv' split: if_splits)
    ultimately show ?thesis by simp
  qed
qed

lemma condiScoresUsed_direct:
  assumes "cacheFrom T S cache prev"
    and "\<forall>a \<in> prev \<union> set as. \<forall>b \<in> prev \<union> set as.
           condiCacheId a = condiCacheId b \<longrightarrow> sameCondiInputs S a b"
  shows "condiScoresUsed T S cache as = map (directCondi T S) as"
  using assms
proof (induction as arbitrary: cache prev)
  case Nil
  then show ?case by simp
next
  case (Cons a as)
  obtain score a' cache' where res: "cachedCondi T S cache a = (score, a', cache')"
    by (cases "cachedCondi T S cache a") auto
  have "\<forall>p \<in> prev. condiCacheId p = condiCacheId a \<longrightarrow> sameCondiInputs S p a"
    using Cons.prems(2) by auto
  from cachedCondi_step[OF Cons.prems(1) this res]
  have score: "score = directCondi T S a" and inv: "cacheFrom T S cache' (insert a prev)"
    by auto
  have "condiScoresUsed T S cache' as = map (directCondi T S) as"
    using Cons.prems(2) by (intro Cons.IH[OF inv]) auto
  then show ?case using res score by simp
qed

text \<open>
  C5, as the code has it. The attribute maps \<open>as\<close> are those of the characters that
  \<open>updateAttributesFast\<close> evaluates one after the other, as they are when the condition
  score is computed; the cache starts empty. If any two of them with the same cache key
  \<open>Expertise + Condition Damage * 10000\<close> agree on the attributes that \<open>calcCondi\<close> reads
  (\<open>Expertise\<close>, \<open>Condition Damage\<close>, \<open>Condition Duration\<close> and, for each relevant
  condition, its \<open>Duration\<close> and \<open>Coefficient\<close>), then the score used for each of them,
  from the cache or computed, is the score \<open>calcCondi\<close> computes for it.
\<close>

theorem condi_cache_sound:
  assumes "\<forall>a \<in> set as. \<forall>b \<in> set as.
             condiCacheId a = condiCacheId b \<longrightarrow> sameCondiInputs S a b"
  shows "condiScoresUsed T S [] as = map (directCondi T S) as"
proof -
  have "cacheFrom T S [] {}" by (simp add: cacheFrom_def)
  then show ?thesis using assms by (intro condiScoresUsed_direct[where prev = "{}"]) auto
qed

lemma example_cache_keys:
  "condiCacheId expertAttributes = Num 1250"
  "condiCacheId fractionAttributes = Num 1250"
  "condiCacheId strongAttributes = Num 1250"
  by (simp_all add: condiCacheId_def getA_def toNumber_def expertAttributes_def
      fractionAttributes_def strongAttributes_def)

lemma example_directCondi:
  "directCondi exampleTables exampleSettings expertAttributes = Num (1441 / 6)"
  "directCondi exampleTables exampleSettings strongAttributes = Num (1441 / 6)"
  "directCondi exampleTables exampleSettings fractionAttributes = Num (209631 / 1600)"
  by (simp_all add: directCondi_def eval_defs example_sel expertAttributes_def
      fractionAttributes_def strongAttributes_def cong: eval_congs)

theorem condi_cache_sound_witness:
  "sameCondiInputs exampleSettings expertAttributes strongAttributes \<and>
   condiScoresUsed exampleTables exampleSettings [] [expertAttributes, strongAttributes] =
   [Num (1441 / 6), Num (1441 / 6)]"
proof -
  have same: "sameCondiInputs exampleSettings expertAttributes strongAttributes"
    "sameCondiInputs exampleSettings strongAttributes expertAttributes"
    "sameCondiInputs exampleSettings expertAttributes expertAttributes"
    "sameCondiInputs exampleSettings strongAttributes strongAttributes"
    by (simp_all add: sameCondiInputs_def condiInputs_def example_sel expertAttributes_def
        strongAttributes_def)
  then have "\<forall>a \<in> set [expertAttributes, strongAttributes].
             \<forall>b \<in> set [expertAttributes, strongAttributes].
               condiCacheId a = condiCacheId b \<longrightarrow> sameCondiInputs exampleSettings a b"
    by simp
  from condi_cache_sound[OF this, of exampleTables]
  show ?thesis using same(1) by (simp add: example_directCondi)
qed

text \<open>
  With \<open>Expertise\<close> below 10000 alone the claim fails: an expertise of 1250 with no
  condition damage and no expertise with a condition damage of 0.125 have the same key,
  and the second character is given the score of the first.
\<close>

lemma example_cachedCondi_miss:
  "cachedCondi exampleTables exampleSettings [] expertAttributes =
   (Num (1441 / 6),
    snd (calcCondi exampleTables exampleSettings exampleMultipliers expertAttributes
           [''Burning'']),
    [(Num 1250, Num (1441 / 6))])"
proof -
  have "fst (calcCondi exampleTables exampleSettings exampleMultipliers expertAttributes
               [''Burning'']) = Num (1441 / 6)"
    using example_directCondi(1) by (simp add: directCondi_def example_sel)
  then show ?thesis
    by (simp add: cachedCondi_def example_sel example_cache_keys Let_def toNumber_def
        split_beta)
qed

lemma example_cachedCondi_hit:
  "cachedCondi exampleTables exampleSettings [(Num 1250, Num (1441 / 6))] fractionAttributes =
   (Num (1441 / 6), fractionAttributes, [(Num 1250, Num (1441 / 6))])"
  by (simp add: cachedCondi_def example_sel example_cache_keys Let_def toNumber_def)

theorem condi_cache_key_counterexample:
  "jslt (getA expertAttributes ''Expertise'') (Num 10000) \<and>
   jslt (getA fractionAttributes ''Expertise'') (Num 10000) \<and>
   condiScoresUsed exampleTables exampleSettings [] [expertAttributes, fractionAttributes] =
     [Num (1441 / 6), Num (1441 / 6)] \<and>
   directCondi exampleTables exampleSettings fractionAttributes = Num (209631 / 1600)"
proof -
  have "getA expertAttributes ''Expertise'' = Num 1250"
    and "getA fractionAttributes ''Expertise'' = Num 0"
    by (simp_all add: getA_def toNumber_def expertAttributes_def fractionAttributes_def)
  then show ?thesis
    by (simp add: example_cachedCondi_miss example_cachedCondi_hit example_directCondi)
qed

section \<open>The ranked list\<close>

text \<open>
  C2 (the code departs from the claim). The first character that \<open>insertCharacter\<close>
  accepts into an empty list is pushed, and the method is done: the test that sets
  \<open>worstScore\<close> when the list has reached \<open>maxResults\<close> stands in the other branch. The
  worst score stays as it was, also when \<open>maxResults\<close> is 1 and the list is now full, and
  the list has one member even when \<open>maxResults\<close> is 0.
\<close>

theorem insertCharacter_first:
  assumes "valid c" and "resultList co = []" and "\<not> truthy (worstScore co)"
    and "insertCharacter T S co c = Inr (co', c')"
  shows "resultList co' = [c'] \<and> worstScore co' = worstScore co"
  using assms by (auto simp: insertCharacter_def Let_def split: sum.splits)

text \<open>
  On the example, where \<open>maxResults\<close> is 1: the list is full after the first insertion,
  its one member ranks at 1025, and the worst score is 0.
\<close>

lemma example_insertCharacter:
  "case insertCharacter exampleTables exampleSettings exampleCore exampleCharacter of
     Inl e \<Rightarrow> False
   | Inr (co', c') \<Rightarrow> rankValue exampleSettings c' = Some (Num 1025)"
  by (simp add: insertCharacter_def calcResults_def rankValue_def eval_defs example_sel
      exampleCharacter_def exampleCore_def cong: eval_congs)

theorem insertCharacter_first_witness:
  "\<exists>co' c'. insertCharacter exampleTables exampleSettings exampleCore exampleCharacter
               = Inr (co', c') \<and>
     resultList co' = [c'] \<and> int (length (resultList co')) = maxResults exampleSettings \<and>
     rankValue exampleSettings c' = Some (Num 1025) \<and> worstScore co' = Num 0"
proof -
  obtain co' c' where
    r: "insertCharacter exampleTables exampleSettings exampleCore exampleCharacter
          = Inr (co', c')"
    and v: "rankValue exampleSettings c' = Some (Num 1025)"
    using example_insertCharacter by (auto split: sum.splits)
  have "valid exampleCharacter" "resultList exampleCore = []"
    "\<not> truthy (worstScore exampleCore)"
    by (simp_all add: exampleCharacter_def exampleCore_def)
  from insertCharacter_first[OF this r]
  have "resultList co' = [c']" "worstScore co' = Num 0"
    by (simp_all add: exampleCore_def)
  then show ?thesis using r v by (simp add: example_sel)
qed

section \<open>Clones\<close>

lemma writeRef_length [simp]: "length (writeRef h r k v) = length h"
  by (simp add: writeRef_def)

lemma writesTo_frame:
  "\<forall>w \<in> set ws. length h0 \<le> fst w \<Longrightarrow> r < length h0 \<Longrightarrow> length h0 \<le> length h \<Longrightarrow>
   writesTo h ws ! r = h ! r"
proof (induction ws arbitrary: h)
  case Nil
  then show ?case by (simp add: writesTo_def)
next
  case (Cons w ws)
  obtain a k v where w: "w = (a, k, v)" by (cases w)
  have "writesTo (writeRef h a k v) ws ! r = writeRef h a k v ! r"
    using Cons.prems by (intro Cons.IH) auto
  moreover have "writeRef h a k v ! r = h ! r"
    using Cons.prems w by (simp add: writeRef_def)
  ultimately show ?case using w by (simp add: writesTo_def)
qed

text \<open>
  C10. The clone of a character has the same references to the settings, the attributes,
  the gear and the gear statistics, and two new objects: a copy of the base attributes
  and a copy of the infusions (an empty object if the character has none). Whatever is
  written to the two objects of the clone, every object that was in the store before is
  as it was, the base attributes and the infusions of the original among them.
\<close>

theorem clone_shares_and_copies:
  assumes "wellFormedRef h c" and "cloneRef h c = (c', h')"
  shows "settings_r c' = settings_r c \<and> attributes_r c' = attributes_r c \<and>
         gear_r c' = gear_r c \<and> gearStats_r c' = gearStats_r c \<and> valid_r c' = valid_r c \<and>
         baseAttributes_r c' = length h \<and> infusions_r c' = Some (Suc (length h)) \<and>
         h' ! baseAttributes_r c' = h ! baseAttributes_r c \<and>
         h' ! Suc (length h) = (case infusions_r c of None \<Rightarrow> [] | Some r \<Rightarrow> h ! r) \<and>
         (\<forall>ws. (\<forall>w \<in> set ws. fst w = baseAttributes_r c' \<or> Some (fst w) = infusions_r c') \<longrightarrow>
            (\<forall>r < length h. writesTo h' ws ! r = h ! r))"
proof -
  have b: "baseAttributes_r c < length h" using assms(1) by (simp add: wellFormedRef_def)
  have i: "\<And>r. infusions_r c = Some r \<Longrightarrow> r < length h"
    using assms(1) by (simp add: wellFormedRef_def)
  have c': "c' = \<lparr>settings_r = settings_r c, attributes_r = attributes_r c, gear_r = gear_r c,
           gearStats_r = gearStats_r c, valid_r = valid_r c, baseAttributes_r = length h,
           infusions_r = Some (Suc (length h))\<rparr>"
    and h': "h' = h @ [h ! baseAttributes_r c] @
                [case infusions_r c of None \<Rightarrow> [] | Some r \<Rightarrow> (h @ [h ! baseAttributes_r c]) ! r]"
    using assms(2) by (auto simp: cloneRef_def alloc_def Let_def)
  have old: "\<And>r. r < length h \<Longrightarrow> h' ! r = h ! r"
    by (simp add: h' nth_append)
  have inf: "h' ! Suc (length h) = (case infusions_r c of None \<Rightarrow> [] | Some r \<Rightarrow> h ! r)"
    using i by (auto simp: h' nth_append split: option.splits)
  have base: "h' ! length h = h ! baseAttributes_r c"
    by (simp add: h' nth_append)
  have frame: "writesTo h' ws ! r = h ! r"
    if ws: "\<forall>w \<in> set ws. fst w = baseAttributes_r c' \<or> Some (fst w) = infusions_r c'"
      and r: "r < length h" for ws r
  proof -
    have "\<forall>w \<in> set ws. length h \<le> fst w" using ws by (auto simp: c')
    moreover have "length h \<le> length h'" by (simp add: h')
    ultimately have "writesTo h' ws ! r = h' ! r" using r by (intro writesTo_frame) auto
    then show ?thesis using old r by simp
  qed
  show ?thesis using base inf frame by (simp add: c')
qed

theorem clone_shares_and_copies_witness:
  "wellFormedRef exampleStore exampleRef \<and>
   baseAttributes_r (fst (cloneRef exampleStore exampleRef)) = 2 \<and>
   infusions_r (fst (cloneRef exampleStore exampleRef)) = Some 3 \<and>
   snd (cloneRef exampleStore exampleRef) ! 2 = [(''Power'', Num 1000)] \<and>
   writesTo (snd (cloneRef exampleStore exampleRef))
     [(2, ''Power'', Num 1005), (3, ''Power'', Num 1)] ! 0 = [(''Power'', Num 1000)] \<and>
   writesTo (snd (cloneRef exampleStore exampleRef))
     [(2, ''Power'', Num 1005), (3, ''Power'', Num 1)] ! 1 = [(''Power'', Num 2)]"
proof -
  define c' where "c' = fst (cloneRef exampleStore exampleRef)"
  define h' where "h' = snd (cloneRef exampleStore exampleRef)"
  have w: "wellFormedRef exampleStore exampleRef"
    by (simp add: wellFormedRef_def exampleStore_def exampleRef_def)
  have e: "cloneRef exampleStore exampleRef = (c', h')"
    by (simp add: c'_def h'_def)
  have len: "length exampleStore = 2" and old: "exampleStore ! 0 = [(''Power'', Num 1000)]"
    "exampleStore ! 1 = [(''Power'', Num 2)]" "baseAttributes_r exampleRef = 0"
    by (simp_all add: exampleStore_def exampleRef_def)
  note t = clone_shares_and_copies[OF w e]
  have b: "baseAttributes_r c' = 2" and i: "infusions_r c' = Some 3"
    using t by (simp_all add: len)
  have copy: "h' ! baseAttributes_r c' = exampleStore ! baseAttributes_r exampleRef"
    using t by blast
  have frame: "writesTo h' ws ! r = exampleStore ! r"
    if "\<forall>w \<in> set ws. fst w = baseAttributes_r c' \<or> Some (fst w) = infusions_r c'"
      and "r < length exampleStore" for ws r
    using t that by blast
  have ws: "\<forall>w \<in> set [(2, ''Power'', Num 1005), (3, ''Power'', Num 1)].
              fst w = baseAttributes_r c' \<or> Some (fst w) = infusions_r c'"
    by (simp add: b i)
  have "writesTo h' [(2, ''Power'', Num 1005), (3, ''Power'', Num 1)] ! 0
          = [(''Power'', Num 1000)]"
    and "writesTo h' [(2, ''Power'', Num 1005), (3, ''Power'', Num 1)] ! 1
          = [(''Power'', Num 2)]"
    using frame[OF ws, of 0] frame[OF ws, of 1] by (simp_all add: exampleStore_def)
  moreover have "h' ! 2 = [(''Power'', Num 1000)]"
    using copy by (simp add: b old)
  ultimately show ?thesis
    using w b i unfolding c'_def h'_def by simp
qed

section \<open>The search loop\<close>

lemma symmetrySkip_spec: "symmetrySkip S g = specSkip S g"
  by (auto simp: symmetrySkip_def specSkip_def Let_def)

text \<open>
  C3. A round of the loop skips the gear prefix on top of the stacks (both stacks lose
  their top and nothing else, no character is tested, \<open>runsAfterThisSlot[k]\<close> is added to
  the runs) if and only if one of the four symmetry conditions of the specification
  holds for the prefix. The affixes are compared as the strings they are.
\<close>

theorem skip_iff_symmetry:
  assumes "calculationQueue st = g # queue" and "calculationStatsQueue st = gs # statsQueue"
  shows "(\<exists>st'. calcStep T S clock st = Inr st' \<and> skipsTop S st st') = specSkip S g"
proof (cases "symmetrySkip S g")
  case True
  then have "\<exists>st'. calcStep T S clock st = Inr st' \<and> skipsTop S st st'"
    using assms calcStep_skip[OF assms True, of T clock] by (simp add: skipsTop_def)
  then show ?thesis using True by (simp add: symmetrySkip_spec)
next
  case False
  have "\<not> skipsTop S st st'" if step: "calcStep T S clock st = Inr st'" for st'
  proof (cases "length (slots S) \<le> length g")
    case True
    then have "leafEvaluations st' = Suc (leafEvaluations st)"
      using step calcStep_leaf[OF assms False True, of T clock] by (auto split: sum.splits)
    then show ?thesis by (simp add: skipsTop_def)
  next
    case leaf: False
    then have "length g < length (slots S)" by simp
    from calcStep_expand_queue[OF assms False this step] obtain f where
      "calculationQueue st' =
         (g @ [nth_opt (affixesArray S ! length g) 0]) #
         rev (map (\<lambda>i. g @ [f i]) [1 ..< length (affixesArray S ! length g)]) @ queue"
      by blast
    then have "length (calculationQueue st') > length queue" by simp
    then show ?thesis using assms by (auto simp: skipsTop_def)
  qed
  then show ?thesis using False by (auto simp: symmetrySkip_spec)
qed

theorem skip_iff_symmetry_witness:
  "specSkip exampleSettings ringsOutOfOrder \<and>
   (\<exists>st'. calcStep exampleTables exampleSettings (\<lambda>n. False) exampleSearch = Inr st' \<and>
          skipsTop exampleSettings exampleSearch st')"
proof -
  have q: "calculationQueue exampleSearch = ringsOutOfOrder # []"
    and sq: "calculationStatsQueue exampleSearch = [] # []"
    by (simp_all add: exampleSearch_def)
  have s: "specSkip exampleSettings ringsOutOfOrder"
    by (simp add: specSkip_def ringsOutOfOrder_def example_sel)
  show ?thesis
    using skip_iff_symmetry[OF q sq, of exampleTables exampleSettings "\<lambda>n. False"] s by simp
qed

text \<open>
  C8 (the code departs from its documentation). With no affixes \<open>calculate\<close> returns at
  once, yielding nothing and leaving the core as it is. The value it returns has
  \<open>percent: 100\<close> and no \<open>calculationRuns\<close>, where every other progress value has
  \<open>calculationRuns\<close> and no \<open>percent\<close>.
\<close>

theorem calculate_empty_affixes:
  assumes "affixes S = []"
  shows "calculate T S clock co =
         Inr ([],
              \<lparr>isChanged_p = True, calculationRuns_p = None, percent_p = Some (Num 100),
               newList_p = Some []\<rparr>,
              co)"
  using assms by (simp add: calculate_def)

theorem calculate_empty_affixes_witness:
  "affixes (exampleSettings\<lparr>affixes := []\<rparr>) = [] \<and>
   calculate exampleTables (exampleSettings\<lparr>affixes := []\<rparr>) (\<lambda>n. False) exampleCore =
   Inr ([],
        \<lparr>isChanged_p = True, calculationRuns_p = None, percent_p = Some (Num 100),
         newList_p = Some []\<rparr>,
        exampleCore)"
proof -
  have a: "affixes (exampleSettings\<lparr>affixes := []\<rparr>) = []" by simp
  show ?thesis using calculate_empty_affixes[OF a] a by simp
qed

text \<open>The leaves that are left to test, and the rounds the loop has made.\<close>

lemma leafCap_append: "leafCap S (xs @ ys) = leafCap S xs + leafCap S ys"
  by (simp add: leafCap_def)








subsection \<open>Rounds that do not throw\<close>
































subsection \<open>Termination\<close>




end
